theory Spec2Isabelle
  imports
    Complex_Main
    "HOL-Library.Sublist"
    "HOL-Library.Char_ord"
    "HOL-Library.List_Lexorder"
    "HOL-Library.AList"
begin

section \<open>Values, errors and data frames\<close>

text \<open>
  The accident predictor of \<^verbatim>\<open>preditor_ofc.py\<close> works on pandas data frames. A frame
  is modelled as its number of rows together with an association list of named
  columns; a cell is a number, a missing value (\<^verbatim>\<open>NaN\<close>, \<^verbatim>\<open>None\<close> and \<^verbatim>\<open>NaT\<close> alike),
  a string or a timestamp (a day, as its proleptic Gregorian ordinal). Numbers are
  exact reals: rounding error of the floating-point unit is outside the model.
  Strings are byte strings in UTF-8, so that the substring test and the order on
  strings agree with Python's on code points.
\<close>

datatype error =
    KeyError string
  | TypeError
  | ValueError
  | DataError
  | RuntimeError
  | NotFittedError
  | AttributeError
  | FileNotFoundError
  | OtherError

datatype cell = Num real | NaN | Str string | Day int

record frame =
  nrows :: nat
  cols :: "(string \<times> cell list) list"

definition bind_res :: "error + 'a \<Rightarrow> ('a \<Rightarrow> error + 'b) \<Rightarrow> error + 'b" where
  "bind_res m f = (case m of Inl e \<Rightarrow> Inl e | Inr x \<Rightarrow> f x)"

text \<open>\<^verbatim>\<open>Series.apply(f)\<close>: the first call that raises aborts the whole application.\<close>

fun apply_res :: "('a \<Rightarrow> error + 'b) \<Rightarrow> 'a list \<Rightarrow> error + 'b list" where
  "apply_res f [] = Inr []"
| "apply_res f (x # xs) =
     (case f x of
        Inl e \<Rightarrow> Inl e
      | Inr y \<Rightarrow> (case apply_res f xs of Inl e \<Rightarrow> Inl e | Inr ys \<Rightarrow> Inr (y # ys)))"

definition columns :: "frame \<Rightarrow> string list" where
  "columns df = map fst (cols df)"

definition has_col :: "string \<Rightarrow> frame \<Rightarrow> bool" where
  "has_col n df = (n \<in> set (columns df))"

text \<open>\<^verbatim>\<open>df[n]\<close> raises \<^verbatim>\<open>KeyError\<close> when the frame has no column \<^verbatim>\<open>n\<close>.\<close>

definition get_col :: "string \<Rightarrow> frame \<Rightarrow> error + cell list" where
  "get_col n df = (case map_of (cols df) n of None \<Rightarrow> Inl (KeyError n) | Some c \<Rightarrow> Inr c)"

text \<open>\<^verbatim>\<open>df[n] = values\<close> replaces the column in place or appends a new one.\<close>

definition set_col :: "string \<Rightarrow> cell list \<Rightarrow> frame \<Rightarrow> frame" where
  "set_col n c df = df\<lparr>cols := AList.update n c (cols df)\<rparr>"

text \<open>\<^verbatim>\<open>df[n] = scalar\<close> broadcasts the scalar over the rows.\<close>

definition set_scalar :: "string \<Rightarrow> cell \<Rightarrow> frame \<Rightarrow> frame" where
  "set_scalar n v df = set_col n (replicate (nrows df) v) df"

text \<open>\<^verbatim>\<open>df[names]\<close>: the named columns, in the order of \<^verbatim>\<open>names\<close>.\<close>

fun select_cols :: "string list \<Rightarrow> frame \<Rightarrow> error + (string \<times> cell list) list" where
  "select_cols [] df = Inr []"
| "select_cols (n # ns) df =
     (case get_col n df of
        Inl e \<Rightarrow> Inl e
      | Inr c \<Rightarrow> (case select_cols ns df of Inl e \<Rightarrow> Inl e | Inr cs \<Rightarrow> Inr ((n, c) # cs)))"

definition select :: "string list \<Rightarrow> frame \<Rightarrow> error + frame" where
  "select ns df =
     (case select_cols ns df of Inl e \<Rightarrow> Inl e | Inr cs \<Rightarrow> Inr \<lparr>nrows = nrows df, cols = cs\<rparr>)"

text \<open>\<^verbatim>\<open>df.fillna(v, inplace=True)\<close>.\<close>

definition fillna :: "cell \<Rightarrow> frame \<Rightarrow> frame" where
  "fillna v df = df\<lparr>cols := map (\<lambda>(n, c). (n, map (\<lambda>x. if x = NaN then v else x) c)) (cols df)\<rparr>"

text \<open>\<^verbatim>\<open>X.iloc[:k]\<close> and \<^verbatim>\<open>X.iloc[k:]\<close>.\<close>

definition iloc_to :: "nat \<Rightarrow> frame \<Rightarrow> frame" where
  "iloc_to k df = \<lparr>nrows = min k (nrows df), cols = map (\<lambda>(n, c). (n, take k c)) (cols df)\<rparr>"

definition iloc_from :: "nat \<Rightarrow> frame \<Rightarrow> frame" where
  "iloc_from k df = \<lparr>nrows = nrows df - k, cols = map (\<lambda>(n, c). (n, drop k c)) (cols df)\<rparr>"

section \<open>Weather normalizer\<close>

text \<open>The keyword "Ceu Claro" with its acute accent: the accented letter is the two bytes C3 A9.\<close>

definition ceu_claro :: string where
  "ceu_claro = [CHR ''C'', CHR 0xC3, CHR 0xA9] @ ''u Claro''"

text \<open>Python's \<^verbatim>\<open>k in cond\<close> on strings: \<^verbatim>\<open>k\<close> occurs in \<^verbatim>\<open>cond\<close> as a contiguous substring.\<close>

definition py_in :: "string \<Rightarrow> string \<Rightarrow> bool" where
  "py_in k cond = sublist k cond"

text \<open>\<^verbatim>\<open>AccidentPredictor._simplificar_clima\<close> (preditor_ofc.py).\<close>

definition simplificar_clima :: "string \<Rightarrow> string" where
  "simplificar_clima cond =
    (if list_ex (\<lambda>k. py_in k cond) [''Chuva'', ''Garoa''] then ''Chuva''
     else if py_in ''Nublado'' cond then ''Nublado''
     else if list_ex (\<lambda>k. py_in k cond) [ceu_claro, ''Sol'', ''Bom''] then ''Bom''
     else if py_in ''Vento'' cond then ''Vento''
     else if list_ex (\<lambda>k. py_in k cond) [''Nevoeiro'', ''Neblina''] then ''Nevoeiro/Neblina''
     else ''Outro'')"

text \<open>The module-level \<^verbatim>\<open>_simplificar_clima\<close> of data_generator.py, used on its prediction inputs.\<close>

definition simplificar_clima_gen :: "string \<Rightarrow> string" where
  "simplificar_clima_gen cond =
    (if list_ex (\<lambda>k. py_in k cond) [''Chuva'', ''Garoa''] then ''Chuva''
     else if py_in ''Nublado'' cond then ''Nublado''
     else if list_ex (\<lambda>k. py_in k cond) [ceu_claro, ''Sol''] then ''Bom''
     else if py_in ''Vento'' cond then ''Vento''
     else if list_ex (\<lambda>k. py_in k cond) [''Nevoeiro'', ''Neblina''] then ''Nevoeiro/Neblina''
     else ''Outro'')"

text \<open>
  Applied to a cell of a column: a cell that is not a string makes \<^verbatim>\<open>k in cond\<close>
  raise \<^verbatim>\<open>TypeError\<close>.
\<close>

definition clima_cell :: "cell \<Rightarrow> error + cell" where
  "clima_cell c = (case c of Str s \<Rightarrow> Inr (Str (simplificar_clima s)) | _ \<Rightarrow> Inl TypeError)"

section \<open>Categorical encoders\<close>

text \<open>
  A fitted \<^verbatim>\<open>LabelEncoder\<close> is its \<^verbatim>\<open>classes_\<close> array: the sorted distinct values it
  was fitted on. Fitting a column that is neither all strings nor all numbers raises
  \<^verbatim>\<open>TypeError\<close>; \<^verbatim>\<open>transform\<close> returns the position of a value among the classes and
  raises \<^verbatim>\<open>ValueError\<close> on a value that is not one of them.
\<close>

record encoder =
  classes :: "cell list"

fun index_of :: "'a \<Rightarrow> 'a list \<Rightarrow> nat" where
  "index_of x [] = 0"
| "index_of x (y # ys) = (if x = y then 0 else Suc (index_of x ys))"

definition is_str :: "cell \<Rightarrow> bool" where
  "is_str c = (case c of Str s \<Rightarrow> True | _ \<Rightarrow> False)"

definition is_num :: "cell \<Rightarrow> bool" where
  "is_num c = (case c of Num x \<Rightarrow> True | _ \<Rightarrow> False)"

definition strs :: "cell list \<Rightarrow> string list" where
  "strs xs = concat (map (\<lambda>c. case c of Str s \<Rightarrow> [s] | _ \<Rightarrow> []) xs)"

definition nums :: "cell list \<Rightarrow> real list" where
  "nums xs = concat (map (\<lambda>c. case c of Num x \<Rightarrow> [x] | _ \<Rightarrow> []) xs)"

definition label_fit :: "cell list \<Rightarrow> error + encoder" where
  "label_fit xs =
    (if list_all is_str xs then Inr \<lparr>classes = map Str (sort (remdups (strs xs)))\<rparr>
     else if list_all is_num xs then Inr \<lparr>classes = map Num (sort (remdups (nums xs)))\<rparr>
     else Inl TypeError)"

definition transform :: "encoder \<Rightarrow> cell \<Rightarrow> error + cell" where
  "transform enc x =
    (if x \<in> set (classes enc) then Inr (Num (real (index_of x (classes enc))))
     else Inl ValueError)"

text \<open>\<^verbatim>\<open>lambda x: enc.transform([x])[0] if x in enc.classes_ else -1\<close>.\<close>

definition encode_value :: "encoder \<Rightarrow> cell \<Rightarrow> error + cell" where
  "encode_value enc x = (if x \<in> set (classes enc) then transform enc x else Inr (Num (- 1)))"

text \<open>\<^verbatim>\<open>enc.fit_transform(column)\<close>.\<close>

definition fit_transform :: "cell list \<Rightarrow> error + (encoder \<times> cell list)" where
  "fit_transform xs =
    bind_res (label_fit xs) (\<lambda>enc.
    bind_res (apply_res (transform enc) xs) (\<lambda>codes. Inr (enc, codes)))"


section \<open>External collaborators\<close>

text \<open>
  The regressor, the date parser, the calendar, the holiday table, the metrics and
  the file reader are libraries outside the repository. They enter the model as the
  fields of an environment. A regressor is the function its \<^verbatim>\<open>predict\<close> computes, from
  a feature matrix to one raw value per row, or an error. The field \<open>split_at\<close> is
  the double-precision computation \<^verbatim>\<open>int(n * 0.7)\<close>: it is \<open>7 * n div 10\<close> except
  for some multiples of ten, such as 90, where the product rounds below the integer.
\<close>

type_synonym regressor = "frame \<Rightarrow> error + real list"

text \<open>One record of the training file: every field is a text or missing.\<close>

record incident =
  data_inversa :: "string option"
  horario :: "string option"
  uf :: "string option"
  municipio :: "string option"
  tipo_acidente :: "string option"
  condicao_metereologica :: "string option"

record env =
  to_datetime :: "string \<Rightarrow> int option"
  to_hour :: "string \<Rightarrow> int option"
  year_of :: "int \<Rightarrow> int"
  month_of :: "int \<Rightarrow> int"
  dayofweek_of :: "int \<Rightarrow> int"
  dayofyear_of :: "int \<Rightarrow> int"
  isoweek_of :: "int \<Rightarrow> int"
  holidays_br :: "int \<Rightarrow> bool"
  lgb_fit :: "frame \<Rightarrow> cell list \<Rightarrow> error + regressor"
  r2_score :: "cell list \<Rightarrow> real list \<Rightarrow> error + cell"
  mean_squared_error :: "cell list \<Rightarrow> real list \<Rightarrow> error + cell"
  load_json :: "string \<Rightarrow> error + incident list"
  split_at :: "nat \<Rightarrow> nat"

text \<open>
  \<^verbatim>\<open>pd.to_datetime(column, format="%d/%m/%Y", errors="coerce")\<close> on one cell: what
  does not parse becomes \<^verbatim>\<open>NaT\<close>.
\<close>

definition to_dt :: "env \<Rightarrow> cell \<Rightarrow> cell" where
  "to_dt env c =
    (case c of
       Str s \<Rightarrow> (case to_datetime env s of Some d \<Rightarrow> Day d | None \<Rightarrow> NaN)
     | Day d \<Rightarrow> Day d
     | _ \<Rightarrow> NaN)"

section \<open>Feature builder\<close>

text \<open>The \<^verbatim>\<open>.dt\<close> accessor: a calendar field of a timestamp, \<^verbatim>\<open>NaN\<close> for \<^verbatim>\<open>NaT\<close>.\<close>

definition dt :: "(int \<Rightarrow> int) \<Rightarrow> cell \<Rightarrow> cell" where
  "dt f c = (case c of Day d \<Rightarrow> Num (of_int (f d)) | _ \<Rightarrow> NaN)"

text \<open>\<^verbatim>\<open>.astype(int)\<close> raises on a missing value.\<close>

definition astype_int :: "cell list \<Rightarrow> error + cell list" where
  "astype_int xs = (if NaN \<in> set xs then Inl ValueError else Inr xs)"

text \<open>\<^verbatim>\<open>(column >= 5).astype(int)\<close>; a comparison with \<^verbatim>\<open>NaN\<close> is false.\<close>

definition ge5 :: "cell \<Rightarrow> cell" where
  "ge5 c = (case c of Num x \<Rightarrow> (if 5 \<le> x then Num 1 else Num 0) | _ \<Rightarrow> Num 0)"

text \<open>\<^verbatim>\<open>lambda x: int(x in self.holidays_br)\<close>.\<close>

definition feriado_cell :: "env \<Rightarrow> cell \<Rightarrow> cell" where
  "feriado_cell env c = (case c of Day d \<Rightarrow> (if holidays_br env d then Num 1 else Num 0) | _ \<Rightarrow> Num 0)"

definition cell_mul :: "cell \<Rightarrow> cell \<Rightarrow> cell" where
  "cell_mul a b = (case (a, b) of (Num x, Num y) \<Rightarrow> Num (x * y) | _ \<Rightarrow> NaN)"

definition cell_map :: "(real \<Rightarrow> real) \<Rightarrow> cell \<Rightarrow> cell" where
  "cell_map f c = (case c of Num x \<Rightarrow> Num (f x) | _ \<Rightarrow> NaN)"

text \<open>
  The calendar and holiday features, lines 64 to 76 of \<^verbatim>\<open>_criar_features\<close>. On a frame
  without rows \<^verbatim>\<open>Series.apply\<close> returns an empty column of timestamps instead of
  integers, and the product \<^verbatim>\<open>feriado * fim_semana\<close> raises \<^verbatim>\<open>TypeError\<close>.
\<close>

definition calendar_features :: "env \<Rightarrow> frame \<Rightarrow> error + frame" where
  "calendar_features env df =
    bind_res (get_col ''data'' df) (\<lambda>data.
    let df = set_col ''ano'' (map (dt (year_of env)) data) df;
        df = set_col ''mes'' (map (dt (month_of env)) data) df;
        dia_semana = map (dt (dayofweek_of env)) data;
        df = set_col ''dia_semana'' dia_semana df;
        dia_ano = map (dt (dayofyear_of env)) data;
        df = set_col ''dia_ano'' dia_ano df
    in bind_res (astype_int (map (dt (isoweek_of env)) data)) (\<lambda>semana.
    if data = [] then Inl TypeError
    else
    let df = set_col ''semana'' semana df;
        fim_semana = map ge5 dia_semana;
        df = set_col ''fim_semana'' fim_semana df;
        feriado = map (feriado_cell env) data;
        df = set_col ''feriado'' feriado df;
        df = set_col ''feriado_fim_semana'' (map2 cell_mul feriado fim_semana) df;
        df = set_col ''dia_semana_sin'' (map (cell_map (\<lambda>x. sin (2 * pi * x / 7))) dia_semana) df;
        df = set_col ''dia_semana_cos'' (map (cell_map (\<lambda>x. cos (2 * pi * x / 7))) dia_semana) df;
        df = set_col ''dia_ano_sin'' (map (cell_map (\<lambda>x. sin (2 * pi * x / 365.25))) dia_ano) df;
        df = set_col ''dia_ano_cos'' (map (cell_map (\<lambda>x. cos (2 * pi * x / 365.25))) dia_ano) df
    in Inr df))"

text \<open>\<^verbatim>\<open>Series.shift(k)\<close>: every value moves \<open>k\<close> rows down, the first \<open>k\<close> rows are missing.\<close>

definition shift :: "nat \<Rightarrow> cell list \<Rightarrow> cell list" where
  "shift k xs = take (length xs) (replicate k NaN @ xs)"

text \<open>
  \<^verbatim>\<open>Series.rolling(w, min_periods=m)\<close>: the window of row \<open>i\<close> is the \<open>w\<close> rows ending
  at row \<open>i\<close>; a statistic is computed from the observations of the window that are
  not missing, when there are at least \<open>m\<close> of them. A column that is not numeric
  raises \<^verbatim>\<open>DataError\<close>.
\<close>

definition window :: "nat \<Rightarrow> cell list \<Rightarrow> nat \<Rightarrow> cell list" where
  "window w xs i = drop (Suc i - w) (take (Suc i) xs)"

definition rolling :: "nat \<Rightarrow> nat \<Rightarrow> (real list \<Rightarrow> cell) \<Rightarrow> cell list \<Rightarrow> error + cell list" where
  "rolling w m stat xs =
    (if list_all (\<lambda>c. is_num c \<or> c = NaN) xs
     then Inr (map (\<lambda>i. let obs = nums (window w xs i)
                       in if m \<le> length obs then stat obs else NaN) [0..<length xs])
     else Inl DataError)"

definition mean :: "real list \<Rightarrow> real" where
  "mean xs = sum_list xs / real (length xs)"

text \<open>The sample variance (\<^verbatim>\<open>ddof=1\<close>).\<close>

definition var :: "real list \<Rightarrow> real" where
  "var xs = sum_list (map (\<lambda>x. (x - mean xs)\<^sup>2) xs) / real (length xs - 1)"

definition mean_stat :: "real list \<Rightarrow> cell" where
  "mean_stat obs = Num (mean obs)"

text \<open>The standard deviation of fewer than two observations is missing.\<close>

definition std_stat :: "real list \<Rightarrow> cell" where
  "std_stat obs = (if 1 < length obs then Num (sqrt (var obs)) else NaN)"

text \<open>The names and parameters of the loops over \<^verbatim>\<open>[1, 2, 7, 14]\<close> and \<^verbatim>\<open>[7, 14, 28]\<close>.\<close>

definition lag_cols :: "(string \<times> nat) list" where
  "lag_cols = [(''lag_1'', 1), (''lag_2'', 2), (''lag_7'', 7), (''lag_14'', 14)]"

definition window_cols :: "(string \<times> nat) list" where
  "window_cols = [(''7'', 7), (''14'', 14), (''28'', 28)]"

definition add_lags :: "cell list \<Rightarrow> frame \<Rightarrow> frame" where
  "add_lags a df = fold (\<lambda>(n, k) d. set_col n (shift k a) d) lag_cols df"

fun add_rolling :: "(string \<times> nat) list \<Rightarrow> cell list \<Rightarrow> frame \<Rightarrow> error + frame" where
  "add_rolling [] a df = Inr df"
| "add_rolling ((s, w) # ws) a df =
     bind_res (rolling w 1 mean_stat (shift 1 a)) (\<lambda>m.
     bind_res (rolling w 1 std_stat (shift 1 a)) (\<lambda>sd.
     add_rolling ws a (set_col (''std_'' @ s) sd (set_col (''media_'' @ s) m df))))"

definition zero_history :: "frame \<Rightarrow> frame" where
  "zero_history df =
    fold (\<lambda>(s, w) d. set_scalar (''std_'' @ s) (Num 0) (set_scalar (''media_'' @ s) (Num 0) d))
      window_cols
      (fold (\<lambda>(n, k) d. set_scalar n (Num 0) d) lag_cols df)"

definition history_features :: "frame \<Rightarrow> error + frame" where
  "history_features df =
    (if has_col ''acidentes'' df
     then bind_res (get_col ''acidentes'' df) (\<lambda>a. add_rolling window_cols a (add_lags a df))
     else Inr (zero_history df))"

text \<open>The four categorical fields, and the loop that encodes them.\<close>

definition categorical :: "string list" where
  "categorical = [''uf'', ''municipio'', ''tipo_acidente'', ''clima'']"

fun encode_cols ::
  "string list \<Rightarrow> (string \<rightharpoonup> encoder) \<Rightarrow> frame \<Rightarrow> (error + frame) \<times> (string \<rightharpoonup> encoder)" where
  "encode_cols [] encs df = (Inr df, encs)"
| "encode_cols (c # cs) encs df =
     (if has_col c df then
        (case get_col c df of
           Inl e \<Rightarrow> (Inl e, encs)
         | Inr vals \<Rightarrow>
            (case encs c of
               Some enc \<Rightarrow>
                 (case apply_res (encode_value enc) vals of
                    Inl e \<Rightarrow> (Inl e, encs)
                  | Inr codes \<Rightarrow> encode_cols cs encs (set_col (c @ ''_enc'') codes df))
             | None \<Rightarrow>
                 (case fit_transform vals of
                    Inl e \<Rightarrow> (Inl e, encs)
                  | Inr (enc, codes) \<Rightarrow>
                      encode_cols cs (encs(c \<mapsto> enc)) (set_col (c @ ''_enc'') codes df))))
      else encode_cols cs encs (set_scalar (c @ ''_enc'') (Num 0) df))"

definition features :: "string list" where
  "features =
    [''ano'', ''mes'', ''dia_semana'', ''dia_ano'', ''semana'', ''fim_semana'',
     ''dia_semana_sin'', ''dia_semana_cos'', ''dia_ano_sin'', ''dia_ano_cos'',
     ''hora_media'', ''feriado'', ''feriado_fim_semana'']
    @ [''lag_1'', ''lag_2'', ''lag_7'', ''lag_14'']
    @ [''media_7'', ''media_14'', ''media_28'']
    @ [''std_7'', ''std_14'', ''std_28'']
    @ map (\<lambda>c. c @ ''_enc'') categorical"

text \<open>
  \<^verbatim>\<open>AccidentPredictor._criar_features\<close>. The registry of encoders is state of the
  predictor: it is passed in and returned, also when the call raises after an
  encoder has been stored.
\<close>

definition criar_features ::
  "env \<Rightarrow> (string \<rightharpoonup> encoder) \<Rightarrow> frame
    \<Rightarrow> (error + frame \<times> cell list option) \<times> (string \<rightharpoonup> encoder)" where
  "criar_features env encs df =
    (case bind_res (calendar_features env df) history_features of
       Inl e \<Rightarrow> (Inl e, encs)
     | Inr df1 \<Rightarrow>
         (case encode_cols categorical encs (fillna (Num 0) df1) of
            (Inl e, encs') \<Rightarrow> (Inl e, encs')
          | (Inr df2, encs') \<Rightarrow>
              (case select features df2 of
                 Inl e \<Rightarrow> (Inl e, encs')
               | Inr X \<Rightarrow>
                   (Inr (X, if has_col ''acidentes'' df2
                            then (case get_col ''acidentes'' df2 of Inl e \<Rightarrow> None | Inr y \<Rightarrow> Some y)
                            else None),
                    encs'))))"


section \<open>Daily aggregator\<close>

text \<open>A record that survives the cleaning steps of \<^verbatim>\<open>_processar_dados\<close>.\<close>

record row =
  r_data :: int
  r_hora :: int
  r_uf :: string
  r_municipio :: string
  r_tipo_acidente :: string
  r_condicao :: string

text \<open>
  The cleaning of one record: the date is parsed, records before 2019 and records
  with a missing field are dropped, the hour is parsed and records without one are
  dropped, and the weather text is normalized.
\<close>

definition clean_row :: "env \<Rightarrow> incident \<Rightarrow> row option" where
  "clean_row env r =
    (case Option.bind (data_inversa r) (to_datetime env) of
       None \<Rightarrow> None
     | Some d \<Rightarrow>
         if 2019 \<le> year_of env d then
           (case (horario r, uf r, municipio r, tipo_acidente r, condicao_metereologica r) of
              (Some h, Some u, Some m, Some t, Some c) \<Rightarrow>
                (case to_hour env h of
                   None \<Rightarrow> None
                 | Some hr \<Rightarrow>
                     Some \<lparr>r_data = d, r_hora = hr, r_uf = u, r_municipio = m,
                           r_tipo_acidente = t, r_condicao = simplificar_clima c\<rparr>)
            | _ \<Rightarrow> None)
         else None)"

text \<open>
  \<^verbatim>\<open>Series.mode()\<close> returns the values that occur most often, sorted; \<^verbatim>\<open>x.mode()[0]\<close>
  is the first of them and raises on an empty series.
\<close>

definition max_count :: "'a list \<Rightarrow> nat" where
  "max_count xs = fold (\<lambda>v m. max (count_list xs v) m) xs 0"

definition mode :: "'a::linorder list \<Rightarrow> 'a list" where
  "mode xs = sort (filter (\<lambda>v. count_list xs v = max_count xs) (remdups xs))"

definition mode0 :: "'a::linorder list \<Rightarrow> error + 'a" where
  "mode0 xs = (case mode xs of [] \<Rightarrow> Inl (KeyError ''0'') | m # ms \<Rightarrow> Inr m)"

text \<open>
  The rows that survive the cleaning, the days that occur among them in ascending
  order (the keys of \<^verbatim>\<open>groupby("data")\<close>), the group of a day in the order of
  the records, and the aggregation \<^verbatim>\<open>lambda x: x.mode()[0]\<close> of one field over the days.
\<close>

definition clean_rows :: "env \<Rightarrow> incident list \<Rightarrow> row list" where
  "clean_rows env raw = List.map_filter (clean_row env) raw"

definition days_of :: "row list \<Rightarrow> int list" where
  "days_of rows = sort (remdups (map r_data rows))"

definition group_of :: "row list \<Rightarrow> int \<Rightarrow> row list" where
  "group_of rows d = filter (\<lambda>r. r_data r = d) rows"

definition agg_mode :: "(row \<Rightarrow> string) \<Rightarrow> row list \<Rightarrow> error + string list" where
  "agg_mode field rows = apply_res (\<lambda>d. mode0 (map field (group_of rows d))) (days_of rows)"

text \<open>
  \<^verbatim>\<open>AccidentPredictor._processar_dados\<close>. The groups come in ascending order of the
  day, so the final \<^verbatim>\<open>sort_values("data")\<close> changes nothing. A training file with no
  record has no column \<^verbatim>\<open>data_inversa\<close>.
\<close>

definition processar_dados :: "env \<Rightarrow> incident list \<Rightarrow> error + frame" where
  "processar_dados env raw =
    (if raw = [] then Inl (KeyError ''data_inversa'')
     else
       let rows = clean_rows env raw; days = days_of rows in
         bind_res (agg_mode r_uf rows) (\<lambda>ufs.
         bind_res (agg_mode r_municipio rows) (\<lambda>municipios.
         bind_res (agg_mode r_tipo_acidente rows) (\<lambda>tipos.
         bind_res (agg_mode r_condicao rows) (\<lambda>condicoes.
         Inr \<lparr>nrows = length days,
              cols =
                [(''data'', map Day days),
                 (''acidentes'', map (\<lambda>d. Num (real (length (group_of rows d)))) days),
                 (''uf'', map Str ufs),
                 (''municipio'', map Str municipios),
                 (''tipo_acidente'', map Str tipos),
                 (''hora_media'',
                  map (\<lambda>d. Num (mean (map (\<lambda>r. real_of_int (r_hora r)) (group_of rows d)))) days),
                 (''clima'', map (\<lambda>c. Str (simplificar_clima c)) condicoes)]\<rparr>)))))"

text \<open>
  The tie-break the specification describes: the first value, in the order of the
  records of the group, that occurs most often.
\<close>

definition first_encountered_mode :: "'a list \<Rightarrow> 'a option" where
  "first_encountered_mode xs = find (\<lambda>v. count_list xs v = max_count xs) xs"

section \<open>Predictor\<close>

record predictor =
  modelo :: regressor
  encoders :: "string \<rightharpoonup> encoder"
  feature_names :: "string list"
  treinado :: bool
  best_params :: "(string \<times> cell) list"
  r2_score_train :: "cell option"
  rmse_score_train :: "cell option"
  r2_score_test :: "cell option"
  rmse_score_test :: "cell option"
  historical_df :: "frame option"

text \<open>\<^verbatim>\<open>AccidentPredictor.__init__\<close>: the regressor is not fitted yet.\<close>

definition new_predictor :: predictor where
  "new_predictor =
    \<lparr>modelo = (\<lambda>X. Inl NotFittedError), encoders = Map.empty, feature_names = [],
     treinado = False, best_params = [], r2_score_train = None, rmse_score_train = None,
     r2_score_test = None, rmse_score_test = None, historical_df = None\<rparr>"

text \<open>\<^verbatim>\<open>np.round\<close> rounds to the nearest integer, a tie to the even one.\<close>

definition np_round :: "real \<Rightarrow> real" where
  "np_round x =
    (let f = \<lfloor>x\<rfloor>; d = x - of_int f
     in of_int (if d < 1 / 2 then f else if 1 / 2 < d then f + 1 else if even f then f else f + 1))"

text \<open>\<^verbatim>\<open>np.clip(np.round(values), 0, None)\<close>.\<close>

definition round_clip :: "real list \<Rightarrow> real list" where
  "round_clip values = map (\<lambda>r. max 0 (np_round r)) values"

text \<open>
  \<^verbatim>\<open>.astype(int)\<close> converts a float to a signed 64-bit integer: it truncates towards
  zero, and a value outside the range of the type comes out as the least 64-bit
  integer.
\<close>

definition astype_int64 :: "real \<Rightarrow> int" where
  "astype_int64 x =
    (let t = (if 0 \<le> x then \<lfloor>x\<rfloor> else \<lceil>x\<rceil>)
     in if - (2 ^ 63) \<le> t \<and> t < 2 ^ 63 then t else - (2 ^ 63))"

text \<open>
  The evaluation at the end of \<^verbatim>\<open>treinar\<close>: both predictions, then the four metrics
  one after the other, then the flag. Each assignment to a field of \<^verbatim>\<open>self\<close> made
  before an exception stays in the returned predictor.
\<close>

definition avaliar ::
  "env \<Rightarrow> predictor \<Rightarrow> frame \<Rightarrow> frame \<Rightarrow> cell list \<Rightarrow> cell list \<Rightarrow> (error + unit) \<times> predictor" where
  "avaliar env p X_train X_test y_train y_test =
    (case bind_res (modelo p X_train) (\<lambda>raw_train.
          bind_res (modelo p X_test) (\<lambda>raw_test.
          Inr (round_clip raw_train, round_clip raw_test))) of
       Inl e \<Rightarrow> (Inl e, p)
     | Inr (y_pred_train, y_pred_test) \<Rightarrow>
         (case r2_score env y_train y_pred_train of
            Inl e \<Rightarrow> (Inl e, p)
          | Inr r2_train \<Rightarrow>
              (case mean_squared_error env y_train y_pred_train of
                 Inl e \<Rightarrow> (Inl e, p\<lparr>r2_score_train := Some r2_train\<rparr>)
               | Inr mse_train \<Rightarrow>
                   (case r2_score env y_test y_pred_test of
                      Inl e \<Rightarrow>
                        (Inl e, p\<lparr>r2_score_train := Some r2_train,
                                  rmse_score_train := Some (cell_map sqrt mse_train)\<rparr>)
                    | Inr r2_test \<Rightarrow>
                        (case mean_squared_error env y_test y_pred_test of
                           Inl e \<Rightarrow>
                             (Inl e, p\<lparr>r2_score_train := Some r2_train,
                                       rmse_score_train := Some (cell_map sqrt mse_train),
                                       r2_score_test := Some r2_test\<rparr>)
                         | Inr mse_test \<Rightarrow>
                             (Inr (), p\<lparr>r2_score_train := Some r2_train,
                                        rmse_score_train := Some (cell_map sqrt mse_train),
                                        r2_score_test := Some r2_test,
                                        rmse_score_test := Some (cell_map sqrt mse_test),
                                        treinado := True\<rparr>))))))"

text \<open>
  \<^verbatim>\<open>AccidentPredictor.treinar\<close>. The aggregated frame always has a column
  \<^verbatim>\<open>acidentes\<close>; without labels \<^verbatim>\<open>y.iloc\<close> would raise.
\<close>

definition treinar :: "env \<Rightarrow> predictor \<Rightarrow> string \<Rightarrow> (error + unit) \<times> predictor" where
  "treinar env p arquivo_json =
    (case bind_res (load_json env arquivo_json) (processar_dados env) of
       Inl e \<Rightarrow> (Inl e, p)
     | Inr df \<Rightarrow>
         (case criar_features env (encoders p) df of
            (Inl e, encs) \<Rightarrow> (Inl e, p\<lparr>encoders := encs, historical_df := Some df\<rparr>)
          | (Inr (X, y_opt), encs) \<Rightarrow>
              let p = p\<lparr>encoders := encs, historical_df := Some df, feature_names := columns X\<rparr>;
                  split_index = split_at env (nrows X)
              in
                (case y_opt of
                   None \<Rightarrow> (Inl AttributeError, p)
                 | Some y \<Rightarrow>
                     (case lgb_fit env (iloc_to split_index X) (take split_index y) of
                        Inl e \<Rightarrow> (Inl e, p)
                      | Inr m \<Rightarrow>
                          avaliar env (p\<lparr>modelo := m\<rparr>)
                            (iloc_to split_index X) (iloc_from split_index X)
                            (take split_index y) (drop split_index y)))))"

text \<open>The persisted artifact: a dictionary, each key present or not.\<close>

record blob =
  b_modelo :: "regressor option"
  b_model :: "regressor option"
  b_encoders :: "(string \<rightharpoonup> encoder) option"
  b_features :: "string list option"
  b_feature_names :: "string list option"
  b_params :: "(string \<times> cell) list option"
  b_best_params :: "(string \<times> cell) list option"
  b_r2_train :: "cell option option"
  b_rmse_train :: "cell option option"
  b_r2_test :: "cell option option"
  b_r2 :: "cell option option"
  b_rmse_test :: "cell option option"
  b_rmse :: "cell option option"
  b_historical_df :: "frame option option"

text \<open>
  A file holds a pickled dictionary, a pickled object that is not a dictionary, or
  something that does not unpickle.
\<close>

datatype stored = Pickle blob | NotADict | Unreadable

definition empty_blob :: blob where
  "empty_blob =
    \<lparr>b_modelo = None, b_model = None, b_encoders = None, b_features = None,
     b_feature_names = None, b_params = None, b_best_params = None, b_r2_train = None,
     b_rmse_train = None, b_r2_test = None, b_r2 = None, b_rmse_test = None, b_rmse = None,
     b_historical_df = None\<rparr>"

text \<open>\<^verbatim>\<open>AccidentPredictor.salvar_modelo\<close>.\<close>

definition salvar_modelo ::
  "predictor \<Rightarrow> string \<Rightarrow> (string \<rightharpoonup> stored) \<Rightarrow> (error + unit) \<times> predictor \<times> (string \<rightharpoonup> stored)" where
  "salvar_modelo p nome fs =
    (if \<not> treinado p then (Inl RuntimeError, p, fs)
     else
       (Inr (), p,
        fs(nome \<mapsto> Pickle (empty_blob\<lparr>
          b_modelo := Some (modelo p),
          b_encoders := Some (encoders p),
          b_features := Some (feature_names p),
          b_r2_train := Some (r2_score_train p),
          b_rmse_train := Some (rmse_score_train p),
          b_r2_test := Some (r2_score_test p),
          b_rmse_test := Some (rmse_score_test p),
          b_historical_df := Some (historical_df p)\<rparr>))))"

text \<open>
  Steps 1 to 4 of \<^verbatim>\<open>AccidentPredictor.prever\<close>: the feature matrix \<^verbatim>\<open>X_predict\<close> handed
  to the regressor.
\<close>

definition prever_matrix :: "env \<Rightarrow> predictor \<Rightarrow> frame \<Rightarrow> (error + frame) \<times> predictor" where
  "prever_matrix env p df_input =
    (if \<not> treinado p then (Inl RuntimeError, p)
     else
       (case get_col ''data_inversa'' df_input of
          Inl e \<Rightarrow> (Inl e, p)
        | Inr di \<Rightarrow>
            let df = set_col ''data'' (map (to_dt env) di) df_input in
            (case bind_res (get_col ''condicao_metereologica'' df) (apply_res clima_cell) of
               Inl e \<Rightarrow> (Inl e, p)
             | Inr clima \<Rightarrow>
                 let df = set_col ''clima'' clima df in
                 (case criar_features env (encoders p) df of
                    (Inl e, encs) \<Rightarrow> (Inl e, p\<lparr>encoders := encs\<rparr>)
                  | (Inr (X_input, y), encs) \<Rightarrow>
                      (select (feature_names p) X_input, p\<lparr>encoders := encs\<rparr>)))))"

text \<open>\<^verbatim>\<open>AccidentPredictor.prever\<close>: step 5 and the rounding and clipping of the result.\<close>

definition prever :: "env \<Rightarrow> predictor \<Rightarrow> frame \<Rightarrow> (error + int list) \<times> predictor" where
  "prever env p df_input =
    (case prever_matrix env p df_input of
       (Inl e, p') \<Rightarrow> (Inl e, p')
     | (Inr X_predict, p') \<Rightarrow>
         (case modelo p' X_predict of
            Inl e \<Rightarrow> (Inl e, p')
          | Inr resultado \<Rightarrow> (Inr (map astype_int64 (round_clip resultado)), p')))"

section \<open>Loading a persisted artifact\<close>

text \<open>\<^verbatim>\<open>data.get(key, default)\<close>.\<close>

definition dict_get :: "'a option \<Rightarrow> 'a \<Rightarrow> 'a" where
  "dict_get entry dflt = (case entry of None \<Rightarrow> dflt | Some v \<Rightarrow> v)"

text \<open>
  \<^verbatim>\<open>load_model\<close> of interface.py. It returns \<^verbatim>\<open>None\<close> when the file is missing or
  does not unpickle. The reads \<^verbatim>\<open>data.get(...)\<close> are outside the \<^verbatim>\<open>try\<close>: on an
  object that is not a dictionary the first of them raises \<^verbatim>\<open>AttributeError\<close>.
  Otherwise the predictor is filled from the dictionary.
\<close>

definition load_model :: "(string \<rightharpoonup> stored) \<Rightarrow> string \<Rightarrow> error + predictor option" where
  "load_model fs pickle_path =
    (case fs pickle_path of
       None \<Rightarrow> Inr None
     | Some Unreadable \<Rightarrow> Inr None
     | Some NotADict \<Rightarrow> Inl AttributeError
     | Some (Pickle data) \<Rightarrow>
         let predictor = new_predictor;
             predictor = predictor\<lparr>modelo :=
               dict_get (b_modelo data) (dict_get (b_model data) (modelo predictor))\<rparr>;
             predictor = predictor\<lparr>encoders := dict_get (b_encoders data) Map.empty\<rparr>;
             predictor = predictor\<lparr>feature_names :=
               dict_get (b_features data) (dict_get (b_feature_names data) [])\<rparr>;
             predictor = predictor\<lparr>best_params :=
               dict_get (b_params data) (dict_get (b_best_params data) [])\<rparr>;
             predictor = predictor\<lparr>r2_score_test :=
               dict_get (b_r2_test data) (dict_get (b_r2 data) None)\<rparr>;
             predictor = predictor\<lparr>rmse_score_test :=
               dict_get (b_rmse_test data) (dict_get (b_rmse data) None)\<rparr>;
             predictor = predictor\<lparr>historical_df := dict_get (b_historical_df data) None\<rparr>;
             predictor = predictor\<lparr>treinado := True\<rparr>
         in Inr (Some predictor))"

section \<open>A small environment for the examples\<close>

text \<open>
  Two days of records, Monday 2 and Tuesday 3 January 2023 (ordinals 738522 and
  738523), with a calendar that is right for these days, no holiday, a regressor
  that always answers 5/2 and metrics that are constant.
\<close>

definition example_records :: "incident list" where
  "example_records =
    [\<lparr>data_inversa = Some ''02/01/2023'', horario = Some ''08:00:00'', uf = Some ''SP'',
      municipio = Some ''SAO PAULO'', tipo_acidente = Some ''Tombamento'',
      condicao_metereologica = Some ''Chuva leve''\<rparr>,
     \<lparr>data_inversa = Some ''02/01/2023'', horario = Some ''10:00:00'', uf = Some ''PE'',
      municipio = Some ''RECIFE'', tipo_acidente = Some ''Tombamento'',
      condicao_metereologica = Some ''Chuva leve''\<rparr>,
     \<lparr>data_inversa = Some ''03/01/2023'', horario = Some ''08:00:00'', uf = Some ''RJ'',
      municipio = Some ''NITEROI'', tipo_acidente = Some ''Tombamento'',
      condicao_metereologica = Some ceu_claro\<rparr>]"

definition example_env :: env where
  "example_env =
    \<lparr>to_datetime = map_of [(''02/01/2023'', 738522), (''03/01/2023'', 738523)],
     to_hour = map_of [(''08:00:00'', 8), (''10:00:00'', 10)],
     year_of = (\<lambda>d. 2023),
     month_of = (\<lambda>d. 1),
     dayofweek_of = (\<lambda>d. (d + 6) mod 7),
     dayofyear_of = (\<lambda>d. d - 738520),
     isoweek_of = (\<lambda>d. 1),
     holidays_br = (\<lambda>d. False),
     lgb_fit = (\<lambda>X y. Inr (\<lambda>X. Inr (replicate (nrows X) (5 / 2)))),
     r2_score = (\<lambda>y y_pred. Inr NaN),
     mean_squared_error = (\<lambda>y y_pred. Inr (Num 0)),
     load_json = (\<lambda>name. if name = ''datatran_consolidado.json'' then Inr example_records
                          else Inl FileNotFoundError),
     split_at = (\<lambda>n. 7 * n div 10)\<rparr>"

text \<open>The daily series of the example records.\<close>

definition example_daily :: frame where
  "example_daily =
    \<lparr>nrows = 2,
     cols = [(''data'', [Day 738522, Day 738523]),
             (''acidentes'', [Num 2, Num 1]),
             (''uf'', [Str ''PE'', Str ''RJ'']),
             (''municipio'', [Str ''RECIFE'', Str ''NITEROI'']),
             (''tipo_acidente'', [Str ''Tombamento'', Str ''Tombamento'']),
             (''hora_media'', [Num 9, Num 8]),
             (''clima'', [Str ''Chuva'', Str ''Bom''])]\<rparr>"

text \<open>The predictor after training on the example file, and two prediction inputs.\<close>

definition example_predictor :: predictor where
  "example_predictor = snd (treinar example_env new_predictor ''datatran_consolidado.json'')"

definition example_input :: frame where
  "example_input =
    \<lparr>nrows = 1,
     cols = [(''data_inversa'', [Str ''03/01/2023'']), (''horario'', [Str ''08:00:00'']),
             (''uf'', [Str ''PE'']), (''municipio'', [Str ''OLINDA'']),
             (''tipo_acidente'', [Str ''Tombamento'']),
             (''condicao_metereologica'', [Str ''Bom'']), (''hora_media'', [Num 8])]\<rparr>"

definition example_input_no_hora :: frame where
  "example_input_no_hora =
    \<lparr>nrows = 1,
     cols = [(''data_inversa'', [Str ''03/01/2023'']), (''horario'', [Str ''08:00:00'']),
             (''uf'', [Str ''PE'']), (''municipio'', [Str ''OLINDA'']),
             (''tipo_acidente'', [Str ''Tombamento'']),
             (''condicao_metereologica'', [Str ''Bom''])]\<rparr>"

text \<open>The registry of encoders that training on the example file produces.\<close>

definition example_encoders :: "string \<rightharpoonup> encoder" where
  "example_encoders =
     [''uf'' \<mapsto> \<lparr>classes = [Str ''PE'', Str ''RJ'']\<rparr>,
      ''municipio'' \<mapsto> \<lparr>classes = [Str ''NITEROI'', Str ''RECIFE'']\<rparr>,
      ''tipo_acidente'' \<mapsto> \<lparr>classes = [Str ''Tombamento'']\<rparr>,
      ''clima'' \<mapsto> \<lparr>classes = [Str ''Bom'', Str ''Chuva'']\<rparr>]"

section \<open>Predicates on columns\<close>

text \<open>A timestamp that is not \<^verbatim>\<open>NaT\<close>.\<close>

definition is_day :: "cell \<Rightarrow> bool" where
  "is_day c = (case c of Day d \<Rightarrow> True | _ \<Rightarrow> False)"

text \<open>The names of the lag and rolling features.\<close>

definition history_names :: "string list" where
  "history_names =
     [''lag_1'', ''lag_2'', ''lag_7'', ''lag_14'', ''media_7'', ''std_7'', ''media_14'', ''std_14'',
      ''media_28'', ''std_28'']"

text \<open>
  A persisted artifact that holds a regressor and the feature names but no encoders,
  stored under the default file name.
\<close>

definition example_partial_blob :: blob where
  "example_partial_blob =
     empty_blob\<lparr>b_modelo := Some (\<lambda>X. Inr (replicate (nrows X) (5 / 2))),
                b_features := Some features\<rparr>"

definition example_files :: "string \<rightharpoonup> stored" where
  "example_files = [''modelo_acidentes.pkl'' \<mapsto> Pickle example_partial_blob]"

text \<open>A prediction input that has neither a state nor a history of counts.\<close>

definition example_input_no_uf :: frame where
  "example_input_no_uf =
    \<lparr>nrows = 1,
     cols = [(''data_inversa'', [Str ''03/01/2023'']), (''horario'', [Str ''08:00:00'']),
             (''municipio'', [Str ''OLINDA'']),
             (''tipo_acidente'', [Str ''Tombamento'']),
             (''condicao_metereologica'', [Str ''Bom'']), (''hora_media'', [Num 8])]\<rparr>"

section \<open>Evaluation rules\<close>

lemmas str_eval = py_in_def ceu_claro_def sublist_code prefix_code less_eq_char_def less_char_def

lemmas frame_eval = get_col_def set_col_def set_scalar_def has_col_def columns_def select_def
  fillna_def bind_res_def

lemma ex_proc: "processar_dados example_env example_records = Inr example_daily"
  by (simp add: processar_dados_def clean_rows_def days_of_def group_of_def agg_mode_def
      List.map_filter_def clean_row_def example_env_def example_records_def simplificar_clima_def
      str_eval mode0_def mode_def max_count_def bind_res_def mean_def example_daily_def)

section \<open>The normalizer is idempotent\<close>

lemma simplificar_clima_range:
  "simplificar_clima s \<in> {''Chuva'', ''Nublado'', ''Bom'', ''Vento'', ''Nevoeiro/Neblina'', ''Outro''}"
  by (simp add: simplificar_clima_def)

lemma simplificar_clima_fixed:
  "simplificar_clima ''Chuva'' = ''Chuva''"
  "simplificar_clima ''Nublado'' = ''Nublado''"
  "simplificar_clima ''Bom'' = ''Bom''"
  "simplificar_clima ''Vento'' = ''Vento''"
  "simplificar_clima ''Nevoeiro/Neblina'' = ''Nevoeiro/Neblina''"
  "simplificar_clima ''Outro'' = ''Outro''"
  by (simp_all add: simplificar_clima_def str_eval)

lemma simplificar_clima_idem: "simplificar_clima (simplificar_clima s) = simplificar_clima s"
  using simplificar_clima_range [of s] by (auto simp: simplificar_clima_fixed)

section \<open>Applying a function that may raise\<close>

lemma apply_res_Inr:
  "apply_res f xs = Inr ys \<Longrightarrow> length ys = length xs \<and> (\<forall>i<length xs. f (xs ! i) = Inr (ys ! i))"
proof (induction xs arbitrary: ys)
  case Nil
  then show ?case by simp
next
  case (Cons x xs)
  then show ?case
    by (auto split: sum.splits simp: nth_Cons split: nat.splits)
qed

lemma apply_res_total:
  "(\<And>x. x \<in> set xs \<Longrightarrow> f x = Inr (g x)) \<Longrightarrow> apply_res f xs = Inr (map g xs)"
  by (induction xs) auto

section \<open>The most frequent value\<close>

lemma fold_max_ge_init: "a \<le> fold (\<lambda>v m. max (g v) m) ys (a::nat)"
proof (induction ys arbitrary: a)
  case Nil
  then show ?case by simp
next
  case (Cons y ys)
  have "a \<le> max (g y) a" by simp
  also have "\<dots> \<le> fold (\<lambda>v m. max (g v) m) ys (max (g y) a)" by (rule Cons.IH)
  finally show ?case by simp
qed

lemma fold_max_ge_elem: "v \<in> set ys \<Longrightarrow> g v \<le> fold (\<lambda>v m. max (g v) m) ys (a::nat)"
proof (induction ys arbitrary: a)
  case Nil
  then show ?case by simp
next
  case (Cons y ys)
  show ?case
  proof (cases "v = y")
    case True
    have "g y \<le> max (g y) a" by simp
    also have "\<dots> \<le> fold (\<lambda>v m. max (g v) m) ys (max (g y) a)" by (rule fold_max_ge_init)
    finally show ?thesis using True by simp
  next
    case False
    with Cons show ?thesis by simp
  qed
qed

lemma fold_max_attained:
  "fold (\<lambda>v m. max (g v) m) ys (a::nat) = a \<or> (\<exists>v\<in>set ys. fold (\<lambda>v m. max (g v) m) ys a = g v)"
proof (induction ys arbitrary: a)
  case Nil
  then show ?case by simp
next
  case (Cons y ys)
  from Cons.IH [of "max (g y) a"] show ?case
    by (auto simp: max_def split: if_splits)
qed

lemma max_count_ge: "count_list xs v \<le> max_count xs"
proof (cases "v \<in> set xs")
  case True
  then show ?thesis unfolding max_count_def by (rule fold_max_ge_elem)
next
  case False
  then show ?thesis by (simp add: count_list_0_iff)
qed

lemma max_count_attained:
  assumes "xs \<noteq> []"
  shows "\<exists>v\<in>set xs. count_list xs v = max_count xs"
proof -
  obtain x where x: "x \<in> set xs" using assms by (cases xs) auto
  then have "count_list xs x \<noteq> 0" by (simp add: count_list_0_iff)
  with max_count_ge [of xs x] have "max_count xs \<noteq> 0" by simp
  with fold_max_attained [of "count_list xs" xs 0] show ?thesis
    by (auto simp: max_count_def)
qed

lemma set_mode: "set (mode xs) = {v \<in> set xs. count_list xs v = max_count xs}"
  by (auto simp: mode_def)

lemma sorted_mode: "sorted (mode xs)"
  by (simp add: mode_def)

lemma mode0_least:
  assumes "xs \<noteq> []"
  shows "\<exists>m. mode0 xs = Inr m \<and> m \<in> set xs \<and> (\<forall>v. count_list xs v \<le> count_list xs m)
            \<and> (\<forall>v. count_list xs v = count_list xs m \<longrightarrow> m \<le> v)"
proof -
  from max_count_attained [OF assms] have "set (mode xs) \<noteq> {}"
    by (auto simp: set_mode)
  then obtain m ms where ms: "mode xs = m # ms" by (cases "mode xs") auto
  then have m: "m \<in> set (mode xs)" by simp
  then have mx: "m \<in> set xs" "count_list xs m = max_count xs" by (auto simp: set_mode)
  have least: "m \<le> v" if "count_list xs v = count_list xs m" for v
  proof -
    from that mx have "0 < count_list xs v"
      by (metis count_list_0_iff gr0I)
    then have "v \<in> set xs" by (metis count_list_0_iff less_numeral_extra(3))
    with that mx have "v \<in> set (mode xs)" by (simp add: set_mode)
    with ms sorted_mode [of xs] show ?thesis by auto
  qed
  show ?thesis
    using ms mx least by (auto simp: mode0_def max_count_ge)
qed

lemma mode0_in_set: "mode0 xs = Inr m \<Longrightarrow> m \<in> set xs"
  by (cases "xs = []") (use mode0_least [of xs] in \<open>auto simp: mode0_def mode_def\<close>)


section \<open>The daily aggregation\<close>

lemma clean_row_condicao:
  "clean_row env r = Some x \<Longrightarrow> simplificar_clima (r_condicao x) = r_condicao x"
  by (auto simp: clean_row_def simplificar_clima_idem split: option.splits if_splits)

lemma clean_rows_condicao:
  "x \<in> set (clean_rows env raw) \<Longrightarrow> simplificar_clima (r_condicao x) = r_condicao x"
  by (auto simp: clean_rows_def List.map_filter_def dest: clean_row_condicao)

lemma group_of_nonempty:
  "d \<in> set (days_of rows) \<Longrightarrow> group_of rows d \<noteq> []"
  by (auto simp: days_of_def group_of_def filter_empty_conv)

lemma agg_mode_nth:
  assumes "agg_mode field rows = Inr ms" and "i < length (days_of rows)"
  shows "length ms = length (days_of rows)"
    and "mode0 (map field (group_of rows (days_of rows ! i))) = Inr (ms ! i)"
  using apply_res_Inr [OF assms(1) [unfolded agg_mode_def]] assms(2) by auto

lemma agg_mode_length:
  "agg_mode field rows = Inr ms \<Longrightarrow> length ms = length (days_of rows)"
  using apply_res_Inr [of _ "days_of rows" ms] by (auto simp: agg_mode_def)

lemma agg_mode_condicao:
  assumes "agg_mode r_condicao (clean_rows env raw) = Inr cs"
  shows "map simplificar_clima cs = cs"
proof (rule nth_equalityI)
  show "length (map simplificar_clima cs) = length cs" by simp
next
  fix i assume "i < length (map simplificar_clima cs)"
  then have i: "i < length (days_of (clean_rows env raw))"
    using agg_mode_length [OF assms] by simp
  from agg_mode_nth(2) [OF assms i] have "cs ! i \<in> set (map r_condicao
      (group_of (clean_rows env raw) (days_of (clean_rows env raw) ! i)))"
    by (rule mode0_in_set)
  then obtain x where "x \<in> set (clean_rows env raw)" "cs ! i = r_condicao x"
    by (auto simp: group_of_def)
  then have "simplificar_clima (cs ! i) = cs ! i" by (simp add: clean_rows_condicao)
  then show "map simplificar_clima cs ! i = cs ! i"
    using \<open>i < length (map simplificar_clima cs)\<close> by simp
qed

lemma processar_dados_Inr:
  assumes "processar_dados env raw = Inr df"
  obtains ufs municipios tipos condicoes where
    "agg_mode r_uf (clean_rows env raw) = Inr ufs"
    "agg_mode r_municipio (clean_rows env raw) = Inr municipios"
    "agg_mode r_tipo_acidente (clean_rows env raw) = Inr tipos"
    "agg_mode r_condicao (clean_rows env raw) = Inr condicoes"
    "df = \<lparr>nrows = length (days_of (clean_rows env raw)),
          cols =
            [(''data'', map Day (days_of (clean_rows env raw))),
             (''acidentes'', map (\<lambda>d. Num (real (length (group_of (clean_rows env raw) d))))
                 (days_of (clean_rows env raw))),
             (''uf'', map Str ufs),
             (''municipio'', map Str municipios),
             (''tipo_acidente'', map Str tipos),
             (''hora_media'',
              map (\<lambda>d. Num (mean (map (\<lambda>r. real_of_int (r_hora r)) (group_of (clean_rows env raw) d))))
                (days_of (clean_rows env raw))),
             (''clima'', map (\<lambda>c. Str (simplificar_clima c)) condicoes)]\<rparr>"
  using assms
  by (auto simp: processar_dados_def bind_res_def Let_def split: if_splits sum.splits)

text \<open>
  Claim C10. The weather normalizer is idempotent: normalizing an already normalized
  value returns it unchanged. Hence the second application of the normalizer inside
  the daily aggregation changes nothing: whenever the aggregation succeeds, the
  column \<^verbatim>\<open>clima\<close> holds, for every day, exactly the modal value of the normalized
  weather classes of that day.
\<close>

theorem simplificar_clima_idempotent:
  "simplificar_clima (simplificar_clima s) = simplificar_clima s \<and>
   (processar_dados env raw = Inr df \<longrightarrow>
      (\<exists>cs. agg_mode r_condicao (clean_rows env raw) = Inr cs \<and>
            get_col ''clima'' df = Inr (map Str cs)))"
proof (intro conjI impI)
  show "simplificar_clima (simplificar_clima s) = simplificar_clima s"
    by (rule simplificar_clima_idem)
next
  assume "processar_dados env raw = Inr df"
  then obtain ufs municipios tipos condicoes where
    c: "agg_mode r_condicao (clean_rows env raw) = Inr condicoes"
    and df: "get_col ''clima'' df = Inr (map (\<lambda>c. Str (simplificar_clima c)) condicoes)"
    by (elim processar_dados_Inr) (simp add: get_col_def)
  have "map (\<lambda>c. Str (simplificar_clima c)) condicoes = map Str (map simplificar_clima condicoes)"
    by simp
  also have "\<dots> = map Str condicoes" by (simp only: agg_mode_condicao [OF c])
  finally show "\<exists>cs. agg_mode r_condicao (clean_rows env raw) = Inr cs \<and>
            get_col ''clima'' df = Inr (map Str cs)"
    using c df by simp
qed

lemmas agg_eval = processar_dados_def clean_rows_def days_of_def group_of_def agg_mode_def
      List.map_filter_def clean_row_def example_env_def example_records_def simplificar_clima_def
      str_eval mode0_def mode_def max_count_def bind_res_def mean_def example_daily_def

theorem simplificar_clima_idempotent_witness:
  "simplificar_clima (simplificar_clima ''Chuva leve'') = ''Chuva'' \<and>
   processar_dados example_env example_records = Inr example_daily \<and>
   agg_mode r_condicao (clean_rows example_env example_records) = Inr [''Chuva'', ''Bom''] \<and>
   get_col ''clima'' example_daily = Inr [Str ''Chuva'', Str ''Bom'']"
  using simplificar_clima_idempotent [of "''Chuva leve''" example_env example_records example_daily]
  by (simp add: agg_eval get_col_def)

text \<open>
  Claim C8. The normalizer of the predictor and the normalizer of the data generator
  are meant to be the same function. They are not: on the text \<^verbatim>\<open>Bom\<close>, which is
  itself one of the categories, the predictor answers \<^verbatim>\<open>Bom\<close> and the data
  generator answers \<^verbatim>\<open>Outro\<close>.
\<close>

theorem simplificar_clima_gen_differs:
  "simplificar_clima ''Bom'' = ''Bom'' \<and> simplificar_clima_gen ''Bom'' = ''Outro''"
  by (simp add: simplificar_clima_def simplificar_clima_gen_def str_eval)

text \<open>The two normalizers agree on every text in which \<^verbatim>\<open>Bom\<close> does not occur.\<close>

lemma simplificar_clima_gen_agree:
  "\<not> py_in ''Bom'' s \<Longrightarrow> simplificar_clima_gen s = simplificar_clima s"
  by (simp add: simplificar_clima_def simplificar_clima_gen_def)

text \<open>
  Claim C9, as stated, fails: on Monday 2 January 2023 of the example the states are
  \<^verbatim>\<open>SP\<close> then \<^verbatim>\<open>PE\<close>, once each; the first encountered of the tied values is
  \<^verbatim>\<open>SP\<close>, and the aggregation chooses \<^verbatim>\<open>PE\<close>.
\<close>

theorem mode_tie_counterexample:
  "map r_uf (group_of (clean_rows example_env example_records) 738522) = [''SP'', ''PE''] \<and>
   first_encountered_mode [''SP'', ''PE''] = Some ''SP'' \<and>
   processar_dados example_env example_records = Inr example_daily \<and>
   get_col ''uf'' example_daily = Inr [Str ''PE'', Str ''RJ'']"
  by (simp add: agg_eval get_col_def first_encountered_mode_def)

text \<open>
  Claim C9, amended. In the daily aggregation, the representative value of a
  categorical field (state, municipality, accident type, weather class) for a day is
  a most frequent value of the field among the records of the day, and among the
  values that tie for most frequent it is the least one in the order of strings.
\<close>

theorem mode_tie_least:
  assumes "processar_dados env raw = Inr df"
    and "i < nrows df"
    and "(n, field) \<in> {(''uf'', r_uf), (''municipio'', r_municipio),
                       (''tipo_acidente'', r_tipo_acidente), (''clima'', r_condicao)}"
    and "g = map field (group_of (clean_rows env raw) (days_of (clean_rows env raw) ! i))"
  shows "\<exists>col m. get_col n df = Inr col \<and> col ! i = Str m \<and> m \<in> set g \<and>
           (\<forall>v. count_list g v \<le> count_list g m) \<and>
           (\<forall>v. count_list g v = count_list g m \<longrightarrow> m \<le> v)"
proof -
  let ?rows = "clean_rows env raw"
  from assms(1) obtain ufs municipios tipos condicoes where
    a: "agg_mode r_uf ?rows = Inr ufs"
      "agg_mode r_municipio ?rows = Inr municipios"
      "agg_mode r_tipo_acidente ?rows = Inr tipos"
      "agg_mode r_condicao ?rows = Inr condicoes"
    and n: "nrows df = length (days_of ?rows)"
    and c: "get_col ''uf'' df = Inr (map Str ufs)"
      "get_col ''municipio'' df = Inr (map Str municipios)"
      "get_col ''tipo_acidente'' df = Inr (map Str tipos)"
      "get_col ''clima'' df = Inr (map (\<lambda>c. Str (simplificar_clima c)) condicoes)"
    by (elim processar_dados_Inr) (simp add: get_col_def)
  have c4: "get_col ''clima'' df = Inr (map Str condicoes)"
  proof -
    have "map (\<lambda>c. Str (simplificar_clima c)) condicoes = map Str (map simplificar_clima condicoes)"
      by simp
    then show ?thesis using c(4) by (simp only: agg_mode_condicao [OF a(4)])
  qed
  from assms(3) obtain ms where ms: "agg_mode field ?rows = Inr ms" "get_col n df = Inr (map Str ms)"
    using a c(1-3) c4 by auto
  have i: "i < length (days_of ?rows)" using assms(2) n by simp
  have len: "length ms = length (days_of ?rows)" by (rule agg_mode_length [OF ms(1)])
  have m0: "mode0 g = Inr (ms ! i)" using agg_mode_nth(2) [OF ms(1) i] assms(4) by simp
  have "days_of ?rows ! i \<in> set (days_of ?rows)" using i by simp
  then have "g \<noteq> []" using group_of_nonempty [of _ ?rows] assms(4) by simp
  from mode0_least [OF this] m0 have
    "ms ! i \<in> set g \<and> (\<forall>v. count_list g v \<le> count_list g (ms ! i)) \<and>
     (\<forall>v. count_list g v = count_list g (ms ! i) \<longrightarrow> ms ! i \<le> v)"
    by auto
  moreover have "map Str ms ! i = Str (ms ! i)" using i len by simp
  ultimately show ?thesis using ms(2) by blast
qed

theorem mode_tie_least_witness:
  "processar_dados example_env example_records = Inr example_daily \<and> (0::nat) < nrows example_daily \<and>
   (\<exists>col m. get_col ''uf'' example_daily = Inr col \<and> col ! 0 = Str m \<and> m \<in> set [''SP'', ''PE''] \<and>
      (\<forall>v. count_list [''SP'', ''PE''] v \<le> count_list [''SP'', ''PE''] m) \<and>
      (\<forall>v. count_list [''SP'', ''PE''] v = count_list [''SP'', ''PE''] m \<longrightarrow> m \<le> v))"
proof -
  have p: "processar_dados example_env example_records = Inr example_daily"
    by (simp add: agg_eval)
  have i: "0 < nrows example_daily" by (simp add: example_daily_def)
  have g: "[''SP'', ''PE''] = map r_uf (group_of (clean_rows example_env example_records)
      (days_of (clean_rows example_env example_records) ! 0))"
    by (simp add: agg_eval)
  from mode_tie_least [OF p i _ g, of "''uf''"] p i show ?thesis by simp
qed

section \<open>Columns of a frame\<close>

lemma get_col_set_col [simp]:
  "get_col n (set_col m c df) = (if n = m then Inr c else get_col n df)"
  by (simp add: get_col_def set_col_def update_conv')

lemma has_col_get_col: "has_col n df = (\<exists>c. get_col n df = Inr c)"
proof -
  have "(map_of (cols df) n = None) = (n \<notin> fst ` set (cols df))"
    by (rule map_of_eq_None_iff)
  then show ?thesis
    by (auto simp: has_col_def columns_def get_col_def split: option.splits)
qed

lemma get_col_KeyError: "get_col n df = Inl e \<Longrightarrow> e = KeyError n \<and> \<not> has_col n df"
  by (auto simp: has_col_get_col) (auto simp: get_col_def split: option.splits)

lemma has_col_set_col [simp]: "has_col n (set_col m c df) = (n = m \<or> has_col n df)"
  by (auto simp: has_col_get_col)

lemma nrows_set_col [simp]: "nrows (set_col m c df) = nrows df"
  by (simp add: set_col_def)

lemma get_col_set_scalar [simp]:
  "get_col n (set_scalar m v df) = (if n = m then Inr (replicate (nrows df) v) else get_col n df)"
  by (simp add: set_scalar_def)

lemma has_col_set_scalar [simp]: "has_col n (set_scalar m v df) = (n = m \<or> has_col n df)"
  by (simp add: set_scalar_def)

lemma nrows_set_scalar [simp]: "nrows (set_scalar m v df) = nrows df"
  by (simp add: set_scalar_def)

lemma get_col_fillna:
  "get_col n (fillna v df) =
    (case get_col n df of Inl e \<Rightarrow> Inl e | Inr c \<Rightarrow> Inr (map (\<lambda>x. if x = NaN then v else x) c))"
  by (simp add: get_col_def fillna_def map_of_map split: option.splits)

lemma has_col_fillna [simp]: "has_col n (fillna v df) = has_col n df"
  by (auto simp: has_col_get_col get_col_fillna split: sum.splits)

lemma nrows_fillna [simp]: "nrows (fillna v df) = nrows df"
  by (simp add: fillna_def)

lemma select_cols_Inr:
  "select_cols ns df = Inr cs \<Longrightarrow>
     map fst cs = ns \<and> (\<forall>n c. map_of cs n = Some c \<longrightarrow> get_col n df = Inr c)"
proof (induction ns arbitrary: cs)
  case Nil
  then show ?case by simp
next
  case (Cons n ns)
  then show ?case by (auto split: sum.splits if_splits)
qed

lemma select_cols_ok:
  "(\<forall>n\<in>set ns. has_col n df) \<Longrightarrow> \<exists>cs. select_cols ns df = Inr cs"
  by (induction ns) (auto simp: has_col_get_col)

lemma select_Inr:
  assumes "select ns df = Inr X"
  shows "columns X = ns" and "nrows X = nrows df"
    and "n \<in> set ns \<Longrightarrow> get_col n X = get_col n df"
    and "n \<in> set ns \<Longrightarrow> has_col n df"
proof -
  from assms obtain cs where cs: "select_cols ns df = Inr cs" "X = \<lparr>nrows = nrows df, cols = cs\<rparr>"
    by (auto simp: select_def split: sum.splits)
  note sc = select_cols_Inr [OF cs(1)]
  from sc cs(2) show "columns X = ns" "nrows X = nrows df"
    by (simp_all add: columns_def)
  have *: "\<exists>c. map_of cs n = Some c \<and> get_col n df = Inr c" if "n \<in> set ns"
  proof -
    from that sc have "n \<in> fst ` set cs" by (metis set_map)
    then have "map_of cs n \<noteq> None" by (simp add: map_of_eq_None_iff)
    with sc show ?thesis by auto
  qed
  show "get_col n X = get_col n df" if "n \<in> set ns"
    using * [OF that] cs(2) by (auto simp: get_col_def)
  show "has_col n df" if "n \<in> set ns"
    using * [OF that] by (auto simp: has_col_get_col)
qed

lemma select_ok: "(\<forall>n\<in>set ns. has_col n df) \<Longrightarrow> \<exists>X. select ns df = Inr X"
  using select_cols_ok [of ns df] by (auto simp: select_def)

section \<open>Encoding a value\<close>

lemma index_of_nth: "x \<in> set xs \<Longrightarrow> index_of x xs < length xs \<and> xs ! index_of x xs = x"
  by (induction xs) auto

lemma encode_value_total:
  "encode_value enc x =
     Inr (if x \<in> set (classes enc) then Num (real (index_of x (classes enc))) else Num (- 1))"
  by (simp add: encode_value_def transform_def)

lemma apply_encode_value:
  "apply_res (encode_value enc) vals =
     Inr (map (\<lambda>x. if x \<in> set (classes enc) then Num (real (index_of x (classes enc))) else Num (- 1)) vals)"
  by (rule apply_res_total) (simp add: encode_value_total)

lemma encode_cols_frozen:
  "encs c = Some enc \<Longrightarrow> snd (encode_cols cs encs df) c = Some enc"
proof (induction cs arbitrary: encs df)
  case Nil
  then show ?case by simp
next
  case (Cons c' cs)
  show ?case
  proof (cases "encs c'")
    case None
    with Cons.prems have "c' \<noteq> c" by auto
    with Cons.prems have "\<And>e. (encs(c' \<mapsto> e)) c = Some enc" by simp
    then have ih': "\<And>e d. snd (encode_cols cs (encs(c' \<mapsto> e)) d) c = Some enc"
      by (rule Cons.IH)
    have ih: "\<And>d. snd (encode_cols cs encs d) c = Some enc"
      using Cons.prems by (rule Cons.IH)
    from ih ih' Cons.prems None show ?thesis
      by (auto split: sum.splits prod.splits)
  next
    case (Some e)
    have ih: "\<And>d. snd (encode_cols cs encs d) c = Some enc"
      using Cons.prems by (rule Cons.IH)
    from ih Cons.prems Some show ?thesis
      by (auto split: sum.splits)
  qed
qed

lemma criar_features_frozen:
  "encs c = Some enc \<Longrightarrow> snd (criar_features env encs df) c = Some enc"
  using encode_cols_frozen [of encs c enc]
  by (auto simp: criar_features_def split: sum.splits prod.splits) (metis snd_conv)+

section \<open>A predictor that is not trained\<close>

lemma treinar_flag:
  "fst (treinar env p arq) \<noteq> Inr () \<Longrightarrow> treinado (snd (treinar env p arq)) = treinado p"
  by (auto simp: treinar_def avaliar_def Let_def split: sum.splits prod.splits option.splits)

text \<open>
  Claim C6. On a predictor whose flag \<^verbatim>\<open>treinado\<close> is not set, \<^verbatim>\<open>prever\<close> and
  \<^verbatim>\<open>salvar_modelo\<close> raise \<^verbatim>\<open>RuntimeError\<close> and leave the predictor (and the files)
  as they were; and a training that does not complete leaves the flag unset.
\<close>

theorem not_trained_rejected:
  assumes "\<not> treinado p"
  shows "prever env p df = (Inl RuntimeError, p) \<and>
         salvar_modelo p nome fs = (Inl RuntimeError, p, fs) \<and>
         (fst (treinar env p arq) \<noteq> Inr () \<longrightarrow> \<not> treinado (snd (treinar env p arq)))"
  using assms treinar_flag [of env p arq]
  by (simp add: prever_def prever_matrix_def salvar_modelo_def)

theorem not_trained_rejected_witness:
  "\<not> treinado new_predictor \<and>
   prever example_env new_predictor example_input = (Inl RuntimeError, new_predictor) \<and>
   salvar_modelo new_predictor ''modelo_acidentes.pkl'' Map.empty
     = (Inl RuntimeError, new_predictor, Map.empty) \<and>
   fst (treinar example_env new_predictor ''outro.json'') \<noteq> Inr () \<and>
   \<not> treinado (snd (treinar example_env new_predictor ''outro.json''))"
proof -
  have n: "\<not> treinado new_predictor" by (simp add: new_predictor_def)
  have f: "fst (treinar example_env new_predictor ''outro.json'') \<noteq> Inr ()"
    by (simp add: treinar_def example_env_def bind_res_def)
  from not_trained_rejected [OF n, of example_env example_input "''modelo_acidentes.pkl''"
      Map.empty "''outro.json''"] n f
  show ?thesis by simp
qed

section \<open>What the loader returns\<close>

text \<open>
  Loading yields no predictor when the file is missing or does not unpickle, and
  raises when the pickled object is not a dictionary.
\<close>

lemma load_model_failures:
  "(load_model fs path = Inr None) = (fs path = None \<or> fs path = Some Unreadable)"
  "(load_model fs path = Inl e) = (fs path = Some NotADict \<and> e = AttributeError)"
  by (auto simp: load_model_def Let_def split: option.splits stored.splits)

text \<open>
  Claim C7, amended. A persisted dictionary that lacks a component is not a load
  error: for every stored dictionary the loader returns a predictor marked as trained
  whose regressor, encoders, feature names, parameters, test metrics and history are
  the entries of the dictionary where present and the defaults of a new predictor (an
  unfitted regressor, an empty registry, an empty list, \<^verbatim>\<open>None\<close>) where absent.
\<close>

theorem load_model_defaults:
  "fs path = Some (Pickle data) \<longrightarrow>
      (\<exists>p. load_model fs path = Inr (Some p) \<and> treinado p \<and>
         modelo p = dict_get (b_modelo data) (dict_get (b_model data) (modelo new_predictor)) \<and>
         encoders p = dict_get (b_encoders data) Map.empty \<and>
         feature_names p = dict_get (b_features data) (dict_get (b_feature_names data) []) \<and>
         best_params p = dict_get (b_params data) (dict_get (b_best_params data) []) \<and>
         r2_score_test p = dict_get (b_r2_test data) (dict_get (b_r2 data) None) \<and>
         rmse_score_test p = dict_get (b_rmse_test data) (dict_get (b_rmse data) None) \<and>
         historical_df p = dict_get (b_historical_df data) None \<and>
         r2_score_train p = None \<and> rmse_score_train p = None)"
  by (auto simp: load_model_def Let_def new_predictor_def)


section \<open>Row counts\<close>

lemma calendar_features_nrows: "calendar_features env df = Inr df1 \<Longrightarrow> nrows df1 = nrows df"
  by (auto simp: calendar_features_def bind_res_def Let_def split: sum.splits if_splits)

lemma add_lags_nrows [simp]: "nrows (add_lags a df) = nrows df"
  by (simp add: add_lags_def lag_cols_def)

lemma add_rolling_nrows: "add_rolling ws a df = Inr df1 \<Longrightarrow> nrows df1 = nrows df"
proof (induction ws arbitrary: df)
  case Nil
  then show ?case by simp
next
  case (Cons sw ws)
  obtain s w where sw: "sw = (s, w)" by (cases sw)
  from Cons.prems obtain m sd where
    "add_rolling ws a (set_col (''std_'' @ s) sd (set_col (''media_'' @ s) m df)) = Inr df1"
    by (auto simp: sw bind_res_def split: sum.splits)
  from Cons.IH [OF this] show ?case by simp
qed

lemma zero_history_nrows [simp]: "nrows (zero_history df) = nrows df"
  by (simp add: zero_history_def lag_cols_def window_cols_def)

lemma history_features_nrows: "history_features df = Inr df1 \<Longrightarrow> nrows df1 = nrows df"
  by (auto simp: history_features_def bind_res_def split: if_splits sum.splits
      dest!: add_rolling_nrows)

lemma encode_cols_nrows: "encode_cols cs encs df = (Inr df1, encs') \<Longrightarrow> nrows df1 = nrows df"
proof (induction cs arbitrary: encs df)
  case Nil
  then show ?case by simp
next
  case (Cons c cs)
  from Cons.prems show ?case
    by (auto split: if_splits sum.splits option.splits prod.splits dest!: Cons.IH)
qed

lemma criar_features_nrows:
  assumes "criar_features env encs df = (Inr (X, y), encs')"
  shows "nrows X = nrows df"
proof -
  from assms obtain df0 df1 df2 where
    "calendar_features env df = Inr df0" "history_features df0 = Inr df1"
    "encode_cols categorical encs (fillna (Num 0) df1) = (Inr df2, encs')"
    "select features df2 = Inr X"
    by (auto simp: criar_features_def bind_res_def split: sum.splits prod.splits)
  then show ?thesis
    using calendar_features_nrows history_features_nrows encode_cols_nrows select_Inr(2)
    by (metis nrows_fillna)
qed

lemma prever_matrix_nrows:
  assumes "prever_matrix env p df = (Inr X, p')"
  shows "nrows X = nrows df" and "modelo p' = modelo p" and "treinado p"
proof -
  from assms show "treinado p" by (auto simp: prever_matrix_def split: if_splits)
  from assms obtain di clima X_input y encs where
    c: "criar_features env (encoders p)
         (set_col ''clima'' clima (set_col ''data'' (map (to_dt env) di) df)) = (Inr (X_input, y), encs)"
    and s: "select (feature_names p) X_input = Inr X" and p': "p' = p\<lparr>encoders := encs\<rparr>"
    by (auto simp: prever_matrix_def Let_def split: if_splits sum.splits prod.splits)
  from criar_features_nrows [OF c] select_Inr(2) [OF s] show "nrows X = nrows df" by simp
  from p' show "modelo p' = modelo p" by simp
qed

section \<open>Rounding and clipping\<close>

lemma np_round_int:
  "\<exists>k. np_round x = of_int k \<and> \<bar>of_int k - x\<bar> \<le> 1 / 2 \<and> (x < 0 \<longrightarrow> k \<le> 0) \<and> (0 \<le> x \<longrightarrow> 0 \<le> k)"
proof -
  have f: "of_int \<lfloor>x\<rfloor> \<le> x" "x < of_int \<lfloor>x\<rfloor> + 1" by linarith+
  have neg: "x < 0 \<Longrightarrow> \<lfloor>x\<rfloor> + 1 \<le> 0" by (simp add: floor_less_iff [symmetric] add1_zle_eq)
  have pos: "0 \<le> x \<Longrightarrow> 0 \<le> \<lfloor>x\<rfloor>" by simp
  show ?thesis
    unfolding np_round_def Let_def
    using f neg pos by (intro exI [of _ "if x - of_int \<lfloor>x\<rfloor> < 1 / 2 then \<lfloor>x\<rfloor>
        else if 1 / 2 < x - of_int \<lfloor>x\<rfloor> then \<lfloor>x\<rfloor> + 1 else if even \<lfloor>x\<rfloor> then \<lfloor>x\<rfloor> else \<lfloor>x\<rfloor> + 1"])
      (auto simp: abs_le_iff)
qed

lemma round_clip_astype:
  assumes "np_round r < 2 ^ 63"
  shows "0 \<le> astype_int64 (max 0 (np_round r)) \<and>
   (r < 0 \<longrightarrow> astype_int64 (max 0 (np_round r)) = 0) \<and>
   (0 \<le> r \<longrightarrow> \<bar>real_of_int (astype_int64 (max 0 (np_round r))) - r\<bar> \<le> 1 / 2)"
proof -
  from np_round_int [of r] obtain k where k: "np_round r = of_int k" "\<bar>of_int k - r\<bar> \<le> 1 / 2"
    "r < 0 \<longrightarrow> k \<le> 0" "0 \<le> r \<longrightarrow> 0 \<le> k" by blast
  show ?thesis
  proof (cases "r < 0")
    case True
    with k have "max 0 (np_round r) = 0" by (simp add: max_def)
    with True show ?thesis by (simp add: astype_int64_def)
  next
    case False
    with k have m: "max 0 (np_round r) = of_int k" "0 \<le> k" by (simp_all add: max_def)
    from assms k(1) have "real_of_int k < 2 ^ 63" by simp
    then have "real_of_int k < real_of_int (2 ^ 63)" by simp
    then have "k < 2 ^ 63" by (simp only: of_int_less_iff)
    with m have "astype_int64 (max 0 (np_round r)) = k"
      by (simp add: astype_int64_def)
    with False k(2) m(2) show ?thesis by simp
  qed
qed

text \<open>Beyond the range of 64 bits the conversion yields a negative number.\<close>

lemma astype_int64_overflow: "astype_int64 (max 0 (np_round (10 ^ 19))) = - (2 ^ 63)"
proof -
  have "np_round (10 ^ 19) = 10 ^ 19"
    by (simp add: np_round_def Let_def)
  then show ?thesis by (simp add: astype_int64_def)
qed

text \<open>
  Claim C5. The regressor is an external library; its contract is that \<^verbatim>\<open>predict\<close>
  returns one raw value per row of the matrix, each of which rounds to less than
  \<open>2 ^ 63\<close>. Under this contract, whenever \<^verbatim>\<open>prever\<close> returns, the predictor was
  trained and the result holds exactly one value per input row: each value is a
  non-negative integer, it is 0 when the raw output is negative, and otherwise it is
  an integer nearest to the raw output.
\<close>

theorem prever_nonneg:
  assumes "prever env p df = (Inr ys, p')"
    and "\<forall>X raw. modelo p X = Inr raw \<longrightarrow>
           length raw = nrows X \<and> (\<forall>r\<in>set raw. np_round r < 2 ^ 63)"
  shows "\<exists>X raw. prever_matrix env p df = (Inr X, p') \<and> treinado p \<and> modelo p X = Inr raw \<and>
           nrows X = nrows df \<and> length raw = nrows df \<and> length ys = nrows df \<and>
           (\<forall>i<length ys. 0 \<le> ys ! i \<and> (raw ! i < 0 \<longrightarrow> ys ! i = 0) \<and>
               (0 \<le> raw ! i \<longrightarrow> \<bar>real_of_int (ys ! i) - raw ! i\<bar> \<le> 1 / 2))"
proof -
  from assms(1) obtain X raw where
    m: "prever_matrix env p df = (Inr X, p')" and r: "modelo p' X = Inr raw"
    and ys: "ys = map astype_int64 (round_clip raw)"
    by (auto simp: prever_def split: prod.splits sum.splits)
  note n = prever_matrix_nrows [OF m]
  from r n(2) have r': "modelo p X = Inr raw" by simp
  with assms(2) have c: "length raw = nrows X" "\<forall>r\<in>set raw. np_round r < 2 ^ 63" by blast+
  have "\<forall>i<length ys. 0 \<le> ys ! i \<and> (raw ! i < 0 \<longrightarrow> ys ! i = 0) \<and>
               (0 \<le> raw ! i \<longrightarrow> \<bar>real_of_int (ys ! i) - raw ! i\<bar> \<le> 1 / 2)"
  proof (intro allI impI)
    fix i assume "i < length ys"
    then have i: "i < length raw" by (simp add: ys round_clip_def)
    then have "np_round (raw ! i) < 2 ^ 63" using c(2) by simp
    from round_clip_astype [OF this] i
    show "0 \<le> ys ! i \<and> (raw ! i < 0 \<longrightarrow> ys ! i = 0) \<and>
               (0 \<le> raw ! i \<longrightarrow> \<bar>real_of_int (ys ! i) - raw ! i\<bar> \<le> 1 / 2)"
      by (simp add: ys round_clip_def)
  qed
  moreover have "length ys = length raw" by (simp add: ys round_clip_def)
  ultimately show ?thesis using m r' n c(1) by auto
qed

section \<open>The example, evaluated\<close>

lemmas frame_eval2 = frame_eval iloc_to_def iloc_from_def

lemmas feat_eval = criar_features_def calendar_features_def history_features_def add_lags_def
  zero_history_def lag_cols_def window_cols_def categorical_def features_def
  dt_def astype_int_def ge5_def feriado_cell_def cell_mul_def cell_map_def Let_def
  shift_def rolling_def window_def mean_stat_def std_stat_def mean_def var_def nums_def
  is_num_def is_str_def strs_def label_fit_def transform_def encode_value_def fit_transform_def

lemma example_env_sel:
  "load_json example_env ''datatran_consolidado.json'' = Inr example_records"
  "lgb_fit example_env = (\<lambda>X y. Inr (\<lambda>X. Inr (replicate (nrows X) (5 / 2))))"
  "r2_score example_env = (\<lambda>y y_pred. Inr NaN)"
  "mean_squared_error example_env = (\<lambda>y y_pred. Inr (Num 0))"
  "split_at example_env = (\<lambda>n. 7 * n div 10)"
  by (simp_all add: example_env_def)

lemma example_criar_features:
  "\<exists>X. criar_features example_env Map.empty example_daily =
     (Inr (X, Some [Num 2, Num 1]), example_encoders) \<and> columns X = features \<and> nrows X = 2"
  by (simp add: feat_eval frame_eval example_daily_def example_env_def str_eval example_encoders_def)

lemma example_treinar:
  "fst (treinar example_env new_predictor ''datatran_consolidado.json'') = Inr ()"
  "treinado example_predictor"
  "feature_names example_predictor = features"
  "encoders example_predictor = example_encoders"
  "modelo example_predictor = (\<lambda>X. Inr (replicate (nrows X) (5 / 2)))"
proof -
  from example_criar_features obtain X where
    X: "criar_features example_env Map.empty example_daily =
     (Inr (X, Some [Num 2, Num 1]), example_encoders)" "columns X = features" "nrows X = 2"
    by blast
  have e: "encoders new_predictor = Map.empty" by (simp add: new_predictor_def)
  show "fst (treinar example_env new_predictor ''datatran_consolidado.json'') = Inr ()"
    "treinado example_predictor"
    "feature_names example_predictor = features"
    "encoders example_predictor = example_encoders"
    "modelo example_predictor = (\<lambda>X. Inr (replicate (nrows X) (5 / 2)))"
    by (simp_all add: example_predictor_def treinar_def avaliar_def example_env_sel ex_proc e X
        bind_res_def Let_def)
qed



section \<open>Stages of the feature builder\<close>

lemma astype_int_days:
  "list_all is_day data \<Longrightarrow> astype_int (map (dt f) data) = Inr (map (dt f) data)"
  by (auto simp: astype_int_def list_all_iff is_day_def dt_def split: cell.splits)

lemma calendar_features_ok:
  assumes "get_col ''data'' df = Inr data" and "list_all is_day data" and "data \<noteq> []"
  shows "\<exists>df0. calendar_features env df = Inr df0 \<and> nrows df0 = nrows df \<and>
           (\<forall>n. has_col n df0 =
              (n \<in> {''ano'', ''mes'', ''dia_semana'', ''dia_ano'', ''semana'', ''fim_semana'',
                    ''feriado'', ''feriado_fim_semana'', ''dia_semana_sin'', ''dia_semana_cos'',
                    ''dia_ano_sin'', ''dia_ano_cos''} \<or> has_col n df)) \<and>
           (\<forall>n. n \<notin> {''ano'', ''mes'', ''dia_semana'', ''dia_ano'', ''semana'', ''fim_semana'',
                    ''feriado'', ''feriado_fim_semana'', ''dia_semana_sin'', ''dia_semana_cos'',
                    ''dia_ano_sin'', ''dia_ano_cos''} \<longrightarrow> get_col n df0 = get_col n df)"
  using assms(1,3) astype_int_days [OF assms(2)]
  by (auto simp: calendar_features_def bind_res_def Let_def)

lemma calendar_features_other:
  assumes "calendar_features env df = Inr df0"
    and "n \<notin> {''ano'', ''mes'', ''dia_semana'', ''dia_ano'', ''semana'', ''fim_semana'',
                ''feriado'', ''feriado_fim_semana'', ''dia_semana_sin'', ''dia_semana_cos'',
                ''dia_ano_sin'', ''dia_ano_cos''}"
  shows "get_col n df0 = get_col n df"
  using assms
  by (auto simp: calendar_features_def bind_res_def Let_def split: sum.splits if_splits)

section \<open>Encoding loop\<close>

lemma encode_cols_present:
  assumes "\<forall>c\<in>set cs. encs c \<noteq> None"
  shows "\<exists>df'. encode_cols cs encs df = (Inr df', encs) \<and> nrows df' = nrows df \<and>
          (\<forall>n. has_col n df' = (n \<in> (\<lambda>c. c @ ''_enc'') ` set cs \<or> has_col n df)) \<and>
          (\<forall>n. n \<notin> (\<lambda>c. c @ ''_enc'') ` set cs \<longrightarrow> get_col n df' = get_col n df)"
  using assms
proof (induction cs arbitrary: df)
  case Nil
  then show ?case by simp
next
  case (Cons c cs)
  then obtain enc where enc: "encs c = Some enc" by auto
  let ?d = "if has_col c df
    then set_col (c @ ''_enc'') (map (\<lambda>x. if x \<in> set (classes enc)
        then Num (real (index_of x (classes enc))) else Num (- 1)) (projr (get_col c df))) df
    else set_scalar (c @ ''_enc'') (Num 0) df"
  have step: "encode_cols (c # cs) encs df = encode_cols cs encs ?d"
    using enc by (auto simp: has_col_get_col apply_encode_value)
  from Cons.prems have "\<forall>c\<in>set cs. encs c \<noteq> None" by simp
  from Cons.IH [OF this, of ?d] obtain df' where
    df': "encode_cols cs encs ?d = (Inr df', encs)" "nrows df' = nrows ?d"
      "\<forall>n. has_col n df' = (n \<in> (\<lambda>c. c @ ''_enc'') ` set cs \<or> has_col n ?d)"
      "\<forall>n. n \<notin> (\<lambda>c. c @ ''_enc'') ` set cs \<longrightarrow> get_col n df' = get_col n ?d"
    by blast
  show ?case
    using step df' by (intro exI [of _ df']) auto
qed

lemma encode_cols_Cons_Inr:
  assumes "encode_cols (c # cs) encs df = (Inr df', encs')"
  obtains e codes where "has_col c df"
      and "encode_cols cs e (set_col (c @ ''_enc'') codes df) = (Inr df', encs')"
      and "(\<exists>vals enc. encs c = Some enc \<and> get_col c df = Inr vals \<and>
              apply_res (encode_value enc) vals = Inr codes \<and> e = encs) \<or> (\<exists>vals enc. encs c = None \<and> get_col c df = Inr vals \<and>
              fit_transform vals = Inr (enc, codes) \<and> e = encs(c \<mapsto> enc))"
  | "\<not> has_col c df"
      and "encode_cols cs encs (set_scalar (c @ ''_enc'') (Num 0) df) = (Inr df', encs')"
proof (cases "has_col c df")
  case False
  with assms that(2) show ?thesis by simp
next
  case True
  then obtain vals where vals: "get_col c df = Inr vals" by (auto simp: has_col_get_col)
  show ?thesis
  proof (cases "encs c")
    case None
    with assms True vals obtain enc codes where
      "fit_transform vals = Inr (enc, codes)"
      "encode_cols cs (encs(c \<mapsto> enc)) (set_col (c @ ''_enc'') codes df) = (Inr df', encs')"
      by (auto split: sum.splits)
    with that(1) [OF True] None vals show ?thesis by blast
  next
    case (Some enc)
    with assms True vals obtain codes where
      "apply_res (encode_value enc) vals = Inr codes"
      "encode_cols cs encs (set_col (c @ ''_enc'') codes df) = (Inr df', encs')"
      by (auto split: sum.splits)
    with that(1) [OF True] Some vals show ?thesis by blast
  qed
qed

lemma encode_cols_other:
  assumes "encode_cols cs encs df = (Inr df', encs')" and "n \<notin> (\<lambda>c. c @ ''_enc'') ` set cs"
  shows "get_col n df' = get_col n df"
  using assms
proof (induction cs arbitrary: encs df)
  case Nil
  then show ?case by simp
next
  case (Cons c cs)
  from Cons.prems(2) have n: "n \<noteq> c @ ''_enc''" "n \<notin> (\<lambda>c. c @ ''_enc'') ` set cs" by auto
  from Cons.prems(1) show ?case
  proof (cases rule: encode_cols_Cons_Inr)
    case (1 e codes)
    from Cons.IH [OF 1(2) n(2)] n(1) show ?thesis by simp
  next
    case 2
    from Cons.IH [OF 2(2) n(2)] n(1) show ?thesis by simp
  qed
qed

lemma encode_cols_zero:
  assumes "encode_cols cs encs df = (Inr df', encs')" and "c \<in> set cs" and "\<not> has_col c df"
    and "\<forall>c'\<in>set cs. c' @ ''_enc'' \<noteq> c"
  shows "get_col (c @ ''_enc'') df' = Inr (replicate (nrows df) (Num 0))"
  using assms
proof (induction cs arbitrary: encs df)
  case Nil
  then show ?case by simp
next
  case (Cons c' cs)
  from Cons.prems(4) have ne: "c' @ ''_enc'' \<noteq> c" "\<forall>c'\<in>set cs. c' @ ''_enc'' \<noteq> c" by auto
  from Cons.prems(1) show ?case
  proof (cases rule: encode_cols_Cons_Inr)
    case (1 e codes)
    with Cons.prems(3) have cc: "c' \<noteq> c" by auto
    with Cons.prems(2) have in_cs: "c \<in> set cs" by simp
    have "\<not> has_col c (set_col (c' @ ''_enc'') codes df)" using Cons.prems(3) ne(1) by auto
    from Cons.IH [OF 1(2) in_cs this ne(2)] show ?thesis by simp
  next
    case 2
    have nh: "\<not> has_col c (set_scalar (c' @ ''_enc'') (Num 0) df)" using Cons.prems(3) ne(1) by auto
    show ?thesis
    proof (cases "c \<in> set cs")
      case True
      from Cons.IH [OF 2(2) True nh ne(2)] show ?thesis by simp
    next
      case False
      with Cons.prems(2) have "c' = c" by simp
      moreover from False have "c @ ''_enc'' \<notin> (\<lambda>c. c @ ''_enc'') ` set cs" by auto
      ultimately show ?thesis using encode_cols_other [OF 2(2)] by simp
    qed
  qed
qed

text \<open>A column without an encoder gets one, fitted on the whole column.\<close>

lemma encode_cols_fit:
  assumes "encode_cols cs encs df = (Inr df', encs')" and "c \<in> set cs" and "has_col c df"
    and "encs c = None" and "\<forall>c'\<in>set cs. c' @ ''_enc'' \<noteq> c"
  shows "\<exists>vals enc. get_col c df = Inr vals \<and> label_fit vals = Inr enc \<and> encs' c = Some enc"
  using assms
proof (induction cs arbitrary: encs df)
  case Nil
  then show ?case by simp
next
  case (Cons c' cs)
  from Cons.prems(5) have ne: "c' @ ''_enc'' \<noteq> c" "\<forall>c'\<in>set cs. c' @ ''_enc'' \<noteq> c" by auto
  from Cons.prems(1) show ?case
  proof (cases rule: encode_cols_Cons_Inr)
    case (1 e codes)
    let ?d = "set_col (c' @ ''_enc'') codes df"
    have hd: "has_col c ?d" "get_col c ?d = get_col c df" using Cons.prems(3) ne(1) by auto
    show ?thesis
    proof (cases "c' = c")
      case True
      with 1(3) Cons.prems(4) obtain vals enc where
        v: "get_col c df = Inr vals" "fit_transform vals = Inr (enc, codes)" "e = encs(c \<mapsto> enc)"
        by auto
      then have "e c = Some enc" by simp
      from encode_cols_frozen [of e c enc cs ?d] this 1(2) have "encs' c = Some enc" by simp
      moreover from v(2) have "label_fit vals = Inr enc"
        by (auto simp: fit_transform_def bind_res_def split: sum.splits)
      ultimately show ?thesis using v(1) by blast
    next
      case False
      with Cons.prems(2) have in_cs: "c \<in> set cs" by simp
      from 1(3) False Cons.prems(4) have "e c = None" by auto
      from Cons.IH [OF 1(2) in_cs hd(1) this ne(2)] hd(2) show ?thesis by simp
    qed
  next
    case 2
    with Cons.prems(3) have cc: "c' \<noteq> c" by auto
    with Cons.prems(2) have in_cs: "c \<in> set cs" by simp
    let ?d = "set_scalar (c' @ ''_enc'') (Num 0) df"
    have hd: "has_col c ?d" "get_col c ?d = get_col c df" using Cons.prems(3) ne(1) by auto
    from Cons.IH [OF 2(2) in_cs hd(1) Cons.prems(4) ne(2)] hd(2) show ?thesis by simp
  qed
qed

lemma label_fit_set: "label_fit vals = Inr enc \<Longrightarrow> set (classes enc) = set vals"
proof -
  assume a: "label_fit vals = Inr enc"
  have s: "list_all is_str vals \<Longrightarrow> Str ` set (strs vals) = set vals"
    by (induction vals) (auto simp: strs_def is_str_def split: cell.splits)
  have n: "list_all is_num vals \<Longrightarrow> Num ` set (nums vals) = set vals"
    by (induction vals) (auto simp: nums_def is_num_def split: cell.splits)
  from a s n show ?thesis
    by (auto simp: label_fit_def split: if_splits)
qed


section \<open>History features\<close>

lemma criar_features_Inr:
  assumes "criar_features env encs df = (Inr (X, y), encs')"
  obtains df0 df1 df2 where "calendar_features env df = Inr df0"
    and "history_features df0 = Inr df1"
    and "encode_cols categorical encs (fillna (Num 0) df1) = (Inr df2, encs')"
    and "select features df2 = Inr X"
  using assms
  by (auto simp: criar_features_def bind_res_def split: sum.splits prod.splits)

lemma history_features_other:
  assumes "history_features df0 = Inr df1"
    and "n \<notin> {''lag_1'', ''lag_2'', ''lag_7'', ''lag_14'', ''media_7'', ''media_14'', ''media_28'',
               ''std_7'', ''std_14'', ''std_28''}"
  shows "get_col n df1 = get_col n df0"
  using assms
  by (auto simp: history_features_def add_lags_def zero_history_def lag_cols_def window_cols_def
      bind_res_def split: if_splits sum.splits)


lemma nums_simps [simp]:
  "nums [] = []" "nums (NaN # xs) = nums xs" "nums (map Num ys) = ys"
  by (simp_all add: nums_def) (induction ys, simp_all)

lemma length_shift [simp]: "length (shift k xs) = length xs"
  by (simp add: shift_def)








section \<open>Training\<close>

lemma avaliar_fields:
  "encoders (snd (avaliar env p Xa Xb ya yb)) = encoders p \<and>
   feature_names (snd (avaliar env p Xa Xb ya yb)) = feature_names p \<and>
   historical_df (snd (avaliar env p Xa Xb ya yb)) = historical_df p \<and>
   modelo (snd (avaliar env p Xa Xb ya yb)) = modelo p \<and>
   (fst (avaliar env p Xa Xb ya yb) = Inr () \<longrightarrow> treinado (snd (avaliar env p Xa Xb ya yb)))"
  by (simp add: avaliar_def split: sum.splits prod.splits)

lemma treinar_Inr:
  assumes "fst (treinar env p arq) = Inr ()"
  obtains raw df X y encs where "load_json env arq = Inr raw"
    and "processar_dados env raw = Inr df"
    and "criar_features env (encoders p) df = (Inr (X, Some y), encs)"
    and "encoders (snd (treinar env p arq)) = encs"
    and "feature_names (snd (treinar env p arq)) = columns X"
    and "historical_df (snd (treinar env p arq)) = Some df"
    and "treinado (snd (treinar env p arq))"
    and "lgb_fit env (iloc_to (split_at env (nrows X)) X) (take (split_at env (nrows X)) y)
           = Inr (modelo (snd (treinar env p arq)))"
proof -
  from assms obtain df where b: "bind_res (load_json env arq) (processar_dados env) = Inr df"
    by (cases "bind_res (load_json env arq) (processar_dados env)") (simp_all add: treinar_def)
  then obtain raw where raw: "load_json env arq = Inr raw" "processar_dados env raw = Inr df"
    by (cases "load_json env arq") (simp_all add: bind_res_def)
  obtain res encs where cf: "criar_features env (encoders p) df = (res, encs)"
    by (cases "criar_features env (encoders p) df")
  with assms b obtain X y_opt where res: "res = Inr (X, y_opt)"
    by (cases res) (auto simp: treinar_def)
  with assms b cf obtain y where y: "y_opt = Some y"
    by (cases y_opt) (simp_all add: treinar_def Let_def)
  let ?k = "split_at env (nrows X)"
  let ?p = "p\<lparr>encoders := encs, historical_df := Some df, feature_names := columns X\<rparr>"
  from assms b cf res y obtain m where m: "lgb_fit env (iloc_to ?k X) (take ?k y) = Inr m"
    by (cases "lgb_fit env (iloc_to ?k X) (take ?k y)") (simp_all add: treinar_def Let_def)
  have t: "treinar env p arq =
      avaliar env (?p\<lparr>modelo := m\<rparr>) (iloc_to ?k X) (iloc_from ?k X) (take ?k y) (drop ?k y)"
    by (simp add: treinar_def b cf res y m Let_def)
  note f = avaliar_fields [of env "?p\<lparr>modelo := m\<rparr>" "iloc_to ?k X" "iloc_from ?k X"
      "take ?k y" "drop ?k y", folded t]
  show ?thesis
    using that [OF raw cf [unfolded res y]] f assms m by simp
qed


lemma criar_features_columns:
  "criar_features env encs df = (Inr (X, y), encs') \<Longrightarrow> columns X = features"
  by (erule criar_features_Inr) (rule select_Inr(1))

lemma processar_dados_categorical:
  assumes "processar_dados env raw = Inr df" and "c \<in> set categorical"
  shows "\<exists>ms. get_col c df = Inr (map Str ms) \<and> length ms = nrows df"
proof -
  from assms(1) obtain ufs municipios tipos condicoes where
    a: "agg_mode r_uf (clean_rows env raw) = Inr ufs"
      "agg_mode r_municipio (clean_rows env raw) = Inr municipios"
      "agg_mode r_tipo_acidente (clean_rows env raw) = Inr tipos"
      "agg_mode r_condicao (clean_rows env raw) = Inr condicoes"
    and n: "nrows df = length (days_of (clean_rows env raw))"
    and g: "get_col ''uf'' df = Inr (map Str ufs)"
      "get_col ''municipio'' df = Inr (map Str municipios)"
      "get_col ''tipo_acidente'' df = Inr (map Str tipos)"
      "get_col ''clima'' df = Inr (map Str (map simplificar_clima condicoes))"
    by (elim processar_dados_Inr) (simp add: get_col_def)
  note l = a [THEN agg_mode_length]
  from assms(2) consider "c = ''uf''" | "c = ''municipio''" | "c = ''tipo_acidente''"
    | "c = ''clima''" by (auto simp: categorical_def)
  then show ?thesis
  proof cases
    case 1 with g(1) l(1) n show ?thesis by auto
  next
    case 2 with g(2) l(2) n show ?thesis by auto
  next
    case 3 with g(3) l(3) n show ?thesis by auto
  next
    case 4
    have "length (map simplificar_clima condicoes) = nrows df" using l(4) n by simp
    with 4 g(4) show ?thesis by blast
  qed
qed

text \<open>
  Claim C3, amended. When training succeeds on a predictor that has no encoder yet
  for a categorical field, the encoder it ends with is fitted on the whole column of
  the aggregated daily series, before the 70/30 split: its vocabulary is the set of
  all values of the column, the held-out rows included.
\<close>

theorem encoders_fitted_on_whole_series:
  assumes "load_json env arq = Inr raw"
    and "processar_dados env raw = Inr df"
    and "fst (treinar env p arq) = Inr ()"
    and "c \<in> set categorical"
    and "encoders p c = None"
  shows "\<exists>enc vals. encoders (snd (treinar env p arq)) c = Some enc \<and>
           get_col c df = Inr vals \<and> length vals = nrows df \<and>
           label_fit vals = Inr enc \<and> set (classes enc) = set vals"
proof -
  from assms(3) obtain raw' df' X y encs where
    "load_json env arq = Inr raw'" "processar_dados env raw' = Inr df'"
    "criar_features env (encoders p) df' = (Inr (X, Some y), encs)"
    and e: "encoders (snd (treinar env p arq)) = encs"
    by (rule treinar_Inr)
  with assms(1,2) have cf: "criar_features env (encoders p) df = (Inr (X, Some y), encs)"
    by simp
  from cf obtain df0 df1 df2 where
    s: "calendar_features env df = Inr df0" "history_features df0 = Inr df1"
      "encode_cols categorical (encoders p) (fillna (Num 0) df1) = (Inr df2, encs)"
    by (rule criar_features_Inr)
  from processar_dados_categorical [OF assms(2,4)] obtain ms where
    col: "get_col c df = Inr (map Str ms)" and len: "length ms = nrows df"
    by blast
  have "get_col c df1 = get_col c df0"
    using assms(4) by (intro history_features_other [OF s(2)]) (auto simp: categorical_def)
  also have "\<dots> = get_col c df"
    using assms(4) by (intro calendar_features_other [OF s(1)]) (auto simp: categorical_def)
  finally have c1: "get_col c (fillna (Num 0) df1) = Inr (map Str ms)"
    by (simp add: get_col_fillna col)
  then have h: "has_col c (fillna (Num 0) df1)" by (auto simp: has_col_get_col)
  have ne: "\<forall>c'\<in>set categorical. c' @ ''_enc'' \<noteq> c"
    using assms(4) by (auto simp: categorical_def)
  from encode_cols_fit [OF s(3) assms(4) h assms(5) ne] c1 obtain enc where
    enc: "label_fit (map Str ms) = Inr enc" "encs c = Some enc"
    by auto
  from label_fit_set [OF enc(1)] have "set (classes enc) = set (map Str ms)" .
  with e col len enc show ?thesis by auto
qed

theorem encoders_fitted_on_whole_series_witness:
  "load_json example_env ''datatran_consolidado.json'' = Inr example_records \<and>
   processar_dados example_env example_records = Inr example_daily \<and>
   fst (treinar example_env new_predictor ''datatran_consolidado.json'') = Inr () \<and>
   encoders new_predictor ''uf'' = None \<and>
   (\<exists>enc vals. encoders (snd (treinar example_env new_predictor ''datatran_consolidado.json'')) ''uf''
        = Some enc \<and>
      get_col ''uf'' example_daily = Inr vals \<and> length vals = nrows example_daily \<and>
      label_fit vals = Inr enc \<and> set (classes enc) = set vals)"
proof -
  have c: "''uf'' \<in> set categorical" by (simp add: categorical_def)
  have n: "encoders new_predictor ''uf'' = None" by (simp add: new_predictor_def)
  note ex = encoders_fitted_on_whole_series [OF example_env_sel(1) ex_proc example_treinar(1) c n]
  show ?thesis
    by (intro conjI example_env_sel(1) ex_proc example_treinar(1) n ex)
qed

text \<open>
  Claim C3, as stated, fails: the example series has two days, the training split is
  its first row (state \<^verbatim>\<open>PE\<close>), the held-out row has state \<^verbatim>\<open>RJ\<close>, and the
  vocabulary of the state encoder after training holds \<^verbatim>\<open>RJ\<close>.
\<close>

theorem encoders_fitted_on_train_counterexample:
  "processar_dados example_env example_records = Inr example_daily \<and>
   fst (treinar example_env new_predictor ''datatran_consolidado.json'') = Inr () \<and>
   split_at example_env (nrows example_daily) = 1 \<and>
   get_col ''uf'' (iloc_to 1 example_daily) = Inr [Str ''PE''] \<and>
   get_col ''uf'' (iloc_from 1 example_daily) = Inr [Str ''RJ''] \<and>
   map_option classes
     (encoders (snd (treinar example_env new_predictor ''datatran_consolidado.json'')) ''uf'')
     = Some [Str ''PE'', Str ''RJ'']"
proof -
  have e: "map_option classes (encoders example_predictor ''uf'') = Some [Str ''PE'', Str ''RJ'']"
    by (simp add: example_treinar(4) example_encoders_def)
  have t: "split_at example_env (nrows example_daily) = 1"
    "get_col ''uf'' (iloc_to 1 example_daily) = Inr [Str ''PE'']"
    "get_col ''uf'' (iloc_from 1 example_daily) = Inr [Str ''RJ'']"
    by (simp_all add: example_daily_def example_env_sel(5) get_col_def iloc_to_def iloc_from_def)
  show ?thesis
    by (intro conjI ex_proc example_treinar(1) t e [unfolded example_predictor_def])
qed

section \<open>Success of the feature builder\<close>

lemma rolling_ok:
  assumes "list_all (\<lambda>c. is_num c \<or> c = NaN) a"
  shows "\<exists>r. rolling w m stat (shift k a) = Inr r"
proof -
  have "list_all (\<lambda>c. is_num c \<or> c = NaN) (shift k a)"
    using assms by (auto simp: list_all_iff shift_def dest!: in_set_takeD)
  then show ?thesis by (simp add: rolling_def)
qed

lemma history_features_ok:
  assumes "\<forall>a. get_col ''acidentes'' df0 = Inr a \<longrightarrow> list_all (\<lambda>c. is_num c \<or> c = NaN) a"
  shows "\<exists>df1. history_features df0 = Inr df1 \<and> nrows df1 = nrows df0 \<and>
           (\<forall>n. has_col n df1 = (n \<in> set history_names \<or> has_col n df0)) \<and>
           (\<not> has_col ''acidentes'' df0 \<longrightarrow>
              (\<forall>n\<in>set history_names. get_col n df1 = Inr (replicate (nrows df0) (Num 0))))"
proof (cases "has_col ''acidentes'' df0")
  case False
  then show ?thesis
    by (auto simp: history_features_def zero_history_def lag_cols_def window_cols_def
        history_names_def)
next
  case True
  then obtain a where a: "get_col ''acidentes'' df0 = Inr a" by (auto simp: has_col_get_col)
  with assms have num: "list_all (\<lambda>c. is_num c \<or> c = NaN) a" by simp
  from rolling_ok [OF num] obtain m7 s7 m14 s14 m28 s28 where
    "rolling 7 1 mean_stat (shift 1 a) = Inr m7" "rolling 7 1 std_stat (shift 1 a) = Inr s7"
    "rolling 14 1 mean_stat (shift 1 a) = Inr m14" "rolling 14 1 std_stat (shift 1 a) = Inr s14"
    "rolling 28 1 mean_stat (shift 1 a) = Inr m28" "rolling 28 1 std_stat (shift 1 a) = Inr s28"
    by metis
  with True a show ?thesis
    by (auto simp: history_features_def add_lags_def lag_cols_def window_cols_def
        history_names_def bind_res_def)
qed


lemma get_col_missing: "\<not> has_col n df \<Longrightarrow> get_col n df = Inl (KeyError n)"
  by (cases "get_col n df") (auto simp: has_col_get_col dest: get_col_KeyError)

lemma select_cols_first_missing:
  "\<forall>x\<in>set xs. has_col x df \<Longrightarrow> \<not> has_col n df \<Longrightarrow>
     select_cols (xs @ n # ys) df = Inl (KeyError n)"
proof (induction xs)
  case Nil
  from get_col_missing [OF Nil(2)] show ?case by simp
next
  case (Cons x xs)
  from Cons.prems(1) have "has_col x df" by simp
  then obtain c where c: "get_col x df = Inr c" unfolding has_col_get_col ..
  from Cons.prems have "select_cols (xs @ n # ys) df = Inl (KeyError n)"
    by (intro Cons.IH) simp_all
  with c show ?case by simp
qed

text \<open>Without the column \<^verbatim>\<open>hora_media\<close> the selection of the features raises.\<close>

lemma criar_features_no_hora:
  assumes enc: "\<forall>c\<in>set categorical. encs c \<noteq> None"
    and data: "get_col ''data'' df = Inr data" "list_all is_day data" "data \<noteq> []"
    and hora: "\<not> has_col ''hora_media'' df"
    and acid: "\<forall>a. get_col ''acidentes'' df = Inr a \<longrightarrow> list_all (\<lambda>c. is_num c \<or> c = NaN) a"
  shows "criar_features env encs df = (Inl (KeyError ''hora_media''), encs)"
proof -
  let ?cal = "{''ano'', ''mes'', ''dia_semana'', ''dia_ano'', ''semana'', ''fim_semana'',
     ''feriado'', ''feriado_fim_semana'', ''dia_semana_sin'', ''dia_semana_cos'',
     ''dia_ano_sin'', ''dia_ano_cos''}"
  let ?encn = "(\<lambda>c. c @ ''_enc'') ` set categorical"
  from calendar_features_ok [OF data, of env] obtain df0 where
    df0: "calendar_features env df = Inr df0"
      "\<And>n. has_col n df0 = (n \<in> ?cal \<or> has_col n df)"
      "\<And>n. n \<notin> ?cal \<Longrightarrow> get_col n df0 = get_col n df"
    by blast
  have "get_col ''acidentes'' df0 = get_col ''acidentes'' df" by (rule df0(3)) simp
  with acid have "\<forall>a. get_col ''acidentes'' df0 = Inr a \<longrightarrow> list_all (\<lambda>c. is_num c \<or> c = NaN) a"
    by simp
  from history_features_ok [OF this] obtain df1 where
    df1: "history_features df0 = Inr df1"
      "\<And>n. has_col n df1 = (n \<in> set history_names \<or> has_col n df0)"
    by blast
  let ?f = "fillna (Num 0) df1"
  from encode_cols_present [OF enc, of ?f] obtain df2 where
    df2: "encode_cols categorical encs ?f = (Inr df2, encs)"
      "\<And>n. has_col n df2 = (n \<in> ?encn \<or> has_col n ?f)"
    by blast
  have f: "features = [''ano'', ''mes'', ''dia_semana'', ''dia_ano'', ''semana'', ''fim_semana'',
      ''dia_semana_sin'', ''dia_semana_cos'', ''dia_ano_sin'', ''dia_ano_cos'']
    @ ''hora_media'' # ([''feriado'', ''feriado_fim_semana'']
    @ [''lag_1'', ''lag_2'', ''lag_7'', ''lag_14'']
    @ [''media_7'', ''media_14'', ''media_28'']
    @ [''std_7'', ''std_14'', ''std_28'']
    @ map (\<lambda>c. c @ ''_enc'') categorical)"
    by (simp add: features_def)
  have pre: "\<forall>x\<in>set [''ano'', ''mes'', ''dia_semana'', ''dia_ano'', ''semana'', ''fim_semana'',
      ''dia_semana_sin'', ''dia_semana_cos'', ''dia_ano_sin'', ''dia_ano_cos'']. has_col x df2"
    by (simp add: df2(2) df1(2) df0(2))
  have nh: "\<not> has_col ''hora_media'' df2"
    using hora by (auto simp: df2(2) df1(2) df0(2) categorical_def history_names_def)
  have "select features df2 = Inl (KeyError ''hora_media'')"
    unfolding select_def by (subst f) (simp only: select_cols_first_missing [OF pre nh] sum.case)
  then show ?thesis
    by (simp add: criar_features_def df0(1) df1(1) df2(1) bind_res_def)
qed

lemma criar_features_ok:
  assumes enc: "\<forall>c\<in>set categorical. encs c \<noteq> None"
    and data: "get_col ''data'' df = Inr data" "list_all is_day data" "data \<noteq> []"
    and hora: "has_col ''hora_media'' df"
    and acid: "\<forall>a. get_col ''acidentes'' df = Inr a \<longrightarrow> list_all (\<lambda>c. is_num c \<or> c = NaN) a"
  shows "\<exists>X y. criar_features env encs df = (Inr (X, y), encs) \<and> columns X = features \<and>
           nrows X = nrows df \<and>
           (\<not> has_col ''acidentes'' df \<longrightarrow>
              (\<forall>n\<in>set history_names. get_col n X = Inr (replicate (nrows df) (Num 0)))) \<and>
           (\<forall>c\<in>set categorical. \<not> has_col c df \<longrightarrow>
              get_col (c @ ''_enc'') X = Inr (replicate (nrows df) (Num 0)))"
proof -
  let ?cal = "{''ano'', ''mes'', ''dia_semana'', ''dia_ano'', ''semana'', ''fim_semana'',
     ''feriado'', ''feriado_fim_semana'', ''dia_semana_sin'', ''dia_semana_cos'',
     ''dia_ano_sin'', ''dia_ano_cos''}"
  let ?encn = "(\<lambda>c. c @ ''_enc'') ` set categorical"
  from calendar_features_ok [OF data, of env] obtain df0 where
    df0: "calendar_features env df = Inr df0" "nrows df0 = nrows df"
      "\<And>n. has_col n df0 = (n \<in> ?cal \<or> has_col n df)"
      "\<And>n. n \<notin> ?cal \<Longrightarrow> get_col n df0 = get_col n df"
    by blast
  have "get_col ''acidentes'' df0 = get_col ''acidentes'' df" by (rule df0(4)) simp
  with acid have "\<forall>a. get_col ''acidentes'' df0 = Inr a \<longrightarrow> list_all (\<lambda>c. is_num c \<or> c = NaN) a"
    by simp
  from history_features_ok [OF this] obtain df1 where
    df1: "history_features df0 = Inr df1" "nrows df1 = nrows df0"
      "\<And>n. has_col n df1 = (n \<in> set history_names \<or> has_col n df0)"
      "\<not> has_col ''acidentes'' df0 \<Longrightarrow>
         \<forall>n\<in>set history_names. get_col n df1 = Inr (replicate (nrows df0) (Num 0))"
    by blast
  let ?f = "fillna (Num 0) df1"
  from encode_cols_present [OF enc, of ?f] obtain df2 where
    df2: "encode_cols categorical encs ?f = (Inr df2, encs)" "nrows df2 = nrows ?f"
      "\<And>n. has_col n df2 = (n \<in> ?encn \<or> has_col n ?f)"
    by blast
  have "\<forall>n\<in>set features. has_col n df2"
    using hora by (auto simp: df2(3) df1(3) df0(3) features_def categorical_def history_names_def)
  from select_ok [OF this] obtain X where X: "select features df2 = Inr X" by blast
  note sel = select_Inr [OF X]
  have cf: "\<exists>y. criar_features env encs df = (Inr (X, y), encs)"
    by (simp add: criar_features_def df0(1) df1(1) df2(1) X bind_res_def)
  have nr: "nrows X = nrows df" by (simp add: sel(2) df2(2) df1(2) df0(2))
  have hist: "get_col n X = Inr (replicate (nrows df) (Num 0))"
    if na: "\<not> has_col ''acidentes'' df" and n: "n \<in> set history_names" for n
  proof -
    from n have nf: "n \<in> set features" "n \<notin> ?encn"
      by (auto simp: history_names_def features_def categorical_def)
    from na have "\<not> has_col ''acidentes'' df0" by (simp add: df0(3))
    from df1(4) [OF this] n have "get_col n df1 = Inr (replicate (nrows df) (Num 0))"
      by (simp add: df0(2))
    then have "get_col n ?f = Inr (replicate (nrows df) (Num 0))"
      by (simp add: get_col_fillna)
    with encode_cols_other [OF df2(1) nf(2)] sel(3) [OF nf(1)] show ?thesis by simp
  qed
  have cat: "get_col (c @ ''_enc'') X = Inr (replicate (nrows df) (Num 0))"
    if c: "c \<in> set categorical" and nc: "\<not> has_col c df" for c
  proof -
    from c have cf': "c @ ''_enc'' \<in> set features" by (simp add: features_def)
    from c nc have "\<not> has_col c ?f"
      by (auto simp: df1(3) df0(3) categorical_def history_names_def)
    moreover have "\<forall>c'\<in>set categorical. c' @ ''_enc'' \<noteq> c"
      using c by (auto simp: categorical_def)
    ultimately have "get_col (c @ ''_enc'') df2 = Inr (replicate (nrows ?f) (Num 0))"
      using encode_cols_zero [OF df2(1) c] by blast
    with sel(3) [OF cf'] show ?thesis by (simp add: df1(2) df0(2))
  qed
  from cf sel(1) nr hist cat show ?thesis by blast
qed

lemma to_dt_day: "to_dt env c \<noteq> NaN \<Longrightarrow> is_day (to_dt env c)"
  by (auto simp: to_dt_def is_day_def split: cell.splits option.splits)

lemma apply_clima_cell:
  "list_all is_str cm \<Longrightarrow> \<exists>cl. apply_res clima_cell cm = Inr cl"
proof (induction cm)
  case Nil
  then show ?case by simp
next
  case (Cons c cm)
  then show ?case by (auto simp: clima_cell_def is_str_def split: cell.splits)
qed

lemma prever_matrix_no_hora:
  assumes tr: "treinado p"
    and enc: "\<forall>c\<in>set categorical. encoders p c \<noteq> None"
    and di: "get_col ''data_inversa'' df = Inr di" "\<forall>c\<in>set di. to_dt env c \<noteq> NaN" "di \<noteq> []"
    and cm: "get_col ''condicao_metereologica'' df = Inr cm" "list_all is_str cm"
    and hora: "\<not> has_col ''hora_media'' df"
    and acid: "\<forall>a. get_col ''acidentes'' df = Inr a \<longrightarrow> list_all (\<lambda>c. is_num c \<or> c = NaN) a"
  shows "prever_matrix env p df = (Inl (KeyError ''hora_media''), p)"
proof -
  from apply_clima_cell [OF cm(2)] obtain cl where cl: "apply_res clima_cell cm = Inr cl" by blast
  let ?d = "set_col ''clima'' cl (set_col ''data'' (map (to_dt env) di) df)"
  have d1: "get_col ''data'' ?d = Inr (map (to_dt env) di)" by simp
  have d2: "list_all is_day (map (to_dt env) di)"
    using di(2) by (auto simp: list_all_iff to_dt_day)
  have d2': "map (to_dt env) di \<noteq> []" using di(3) by simp
  have d3: "\<not> has_col ''hora_media'' ?d" using hora by simp
  have d4: "\<forall>a. get_col ''acidentes'' ?d = Inr a \<longrightarrow> list_all (\<lambda>c. is_num c \<or> c = NaN) a"
    using acid by simp
  from criar_features_no_hora [OF enc d1 d2 d2' d3 d4, of env]
  have "criar_features env (encoders p) ?d = (Inl (KeyError ''hora_media''), encoders p)" .
  then show ?thesis
    using tr by (simp add: prever_matrix_def di(1) cm(1) cl bind_res_def)
qed

lemma prever_matrix_ok:
  assumes tr: "treinado p"
    and fn: "set (feature_names p) \<subseteq> set features"
    and enc: "\<forall>c\<in>set categorical. encoders p c \<noteq> None"
    and di: "get_col ''data_inversa'' df = Inr di" "\<forall>c\<in>set di. to_dt env c \<noteq> NaN" "di \<noteq> []"
    and cm: "get_col ''condicao_metereologica'' df = Inr cm" "list_all is_str cm"
    and hora: "has_col ''hora_media'' df"
    and acid: "\<forall>a. get_col ''acidentes'' df = Inr a \<longrightarrow> list_all (\<lambda>c. is_num c \<or> c = NaN) a"
  shows "\<exists>X. prever_matrix env p df = (Inr X, p) \<and> columns X = feature_names p \<and>
           nrows X = nrows df \<and>
           (\<not> has_col ''acidentes'' df \<longrightarrow>
              (\<forall>n\<in>set history_names \<inter> set (feature_names p).
                 get_col n X = Inr (replicate (nrows df) (Num 0)))) \<and>
           (\<forall>c\<in>{''uf'', ''municipio'', ''tipo_acidente''}.
              \<not> has_col c df \<longrightarrow> c @ ''_enc'' \<in> set (feature_names p) \<longrightarrow>
              get_col (c @ ''_enc'') X = Inr (replicate (nrows df) (Num 0)))"
proof -
  from apply_clima_cell [OF cm(2)] obtain cl where cl: "apply_res clima_cell cm = Inr cl" by blast
  let ?d = "set_col ''clima'' cl (set_col ''data'' (map (to_dt env) di) df)"
  have d1: "get_col ''data'' ?d = Inr (map (to_dt env) di)" by simp
  have d2: "list_all is_day (map (to_dt env) di)"
    using di(2) by (auto simp: list_all_iff to_dt_day)
  have d2': "map (to_dt env) di \<noteq> []" using di(3) by simp
  have d3: "has_col ''hora_media'' ?d" using hora by simp
  have d4: "\<forall>a. get_col ''acidentes'' ?d = Inr a \<longrightarrow> list_all (\<lambda>c. is_num c \<or> c = NaN) a"
    using acid by simp
  from criar_features_ok [OF enc d1 d2 d2' d3 d4, of env] obtain Xi y where
    Xi: "criar_features env (encoders p) ?d = (Inr (Xi, y), encoders p)" "columns Xi = features"
      "nrows Xi = nrows ?d"
      "\<not> has_col ''acidentes'' ?d \<Longrightarrow>
         \<forall>n\<in>set history_names. get_col n Xi = Inr (replicate (nrows ?d) (Num 0))"
      "\<forall>c\<in>set categorical. \<not> has_col c ?d \<longrightarrow>
         get_col (c @ ''_enc'') Xi = Inr (replicate (nrows ?d) (Num 0))"
    by blast
  have "\<forall>n\<in>set (feature_names p). has_col n Xi"
    using fn Xi(2) by (auto simp: has_col_def)
  from select_ok [OF this] obtain X where X: "select (feature_names p) Xi = Inr X" by blast
  note sel = select_Inr [OF X]
  have pm: "prever_matrix env p df = (Inr X, p)"
    using tr by (simp add: prever_matrix_def di(1) cm(1) cl Xi(1) X bind_res_def)
  have hist: "get_col n X = Inr (replicate (nrows df) (Num 0))"
    if "\<not> has_col ''acidentes'' df" "n \<in> set history_names" "n \<in> set (feature_names p)" for n
    using that Xi(4) sel(3) [of n] by simp
  have cat: "get_col (c @ ''_enc'') X = Inr (replicate (nrows df) (Num 0))"
    if "c \<in> {''uf'', ''municipio'', ''tipo_acidente''}" "\<not> has_col c df"
      "c @ ''_enc'' \<in> set (feature_names p)" for c
  proof -
    from that(1,2) have "c \<in> set categorical" "\<not> has_col c ?d"
      by (auto simp: categorical_def)
    with Xi(5) have "get_col (c @ ''_enc'') Xi = Inr (replicate (nrows ?d) (Num 0))" by blast
    with sel(3) [OF that(3)] show ?thesis by simp
  qed
  have nr: "nrows X = nrows df" using sel(2) Xi(3) by simp
  from pm sel(1) nr hist cat show ?thesis by blast
qed


section \<open>The registry is read-only once it is complete\<close>

lemma criar_features_registry:
  assumes "\<forall>c\<in>set categorical. encs c \<noteq> None"
  shows "snd (criar_features env encs df) = encs"
proof -
  have "snd (encode_cols categorical encs d) = encs" for d
    using encode_cols_present [OF assms, of d] by auto
  then show ?thesis
    by (auto simp: criar_features_def split: sum.splits prod.splits) (metis snd_conv)+
qed

lemma prever_matrix_registry:
  assumes "\<forall>c\<in>set categorical. encoders p c \<noteq> None"
  shows "snd (prever_matrix env p df) = p"
proof -
  have "encs = encoders p" if "criar_features env (encoders p) d = (r, encs)" for d r encs
    using criar_features_registry [OF assms, of env d] that by simp
  then show ?thesis
    by (auto simp: prever_matrix_def Let_def split: sum.splits prod.splits)
qed

lemma treinar_trained_state:
  assumes "fst (treinar env p arq) = Inr ()"
  shows "treinado (snd (treinar env p arq)) \<and>
         feature_names (snd (treinar env p arq)) = features \<and>
         (\<forall>c\<in>set categorical. encoders (snd (treinar env p arq)) c \<noteq> None)"
proof -
  from assms obtain raw df X y encs where
    t: "processar_dados env raw = Inr df"
      "criar_features env (encoders p) df = (Inr (X, Some y), encs)"
      "encoders (snd (treinar env p arq)) = encs"
      "feature_names (snd (treinar env p arq)) = columns X"
      "treinado (snd (treinar env p arq))"
    by (rule treinar_Inr)
  from t(2) obtain df0 df1 df2 where
    s: "calendar_features env df = Inr df0" "history_features df0 = Inr df1"
      "encode_cols categorical (encoders p) (fillna (Num 0) df1) = (Inr df2, encs)"
    by (rule criar_features_Inr)
  have "encs c \<noteq> None" if c: "c \<in> set categorical" for c
  proof (cases "encoders p c")
    case (Some enc)
    from encode_cols_frozen [of "encoders p" c enc categorical "fillna (Num 0) df1"] Some s(3)
    show ?thesis by simp
  next
    case None
    from processar_dados_categorical [OF t(1) c] obtain ms where
      col: "get_col c df = Inr (map Str ms)" by blast
    have "get_col c df1 = get_col c df0"
      using c by (intro history_features_other [OF s(2)]) (auto simp: categorical_def)
    also have "\<dots> = get_col c df"
      using c by (intro calendar_features_other [OF s(1)]) (auto simp: categorical_def)
    finally have "has_col c df1" by (simp add: has_col_get_col col)
    then have "has_col c (fillna (Num 0) df1)" by simp
    moreover have "\<forall>c'\<in>set categorical. c' @ ''_enc'' \<noteq> c"
      using c by (auto simp: categorical_def)
    ultimately show ?thesis using encode_cols_fit [OF s(3) c _ None] by auto
  qed
  with t(3,4,5) criar_features_columns [OF t(2)] show ?thesis by simp
qed

section \<open>The codes the encoding loop writes\<close>

lemma encode_cols_code:
  assumes "encode_cols cs encs df = (Inr df', encs')" and "c \<in> set cs"
    and "encs c = Some enc" and "get_col c df = Inr vals"
    and "\<forall>c'\<in>set cs. c' @ ''_enc'' \<noteq> c"
  shows "get_col (c @ ''_enc'') df' =
    Inr (map (\<lambda>v. if v \<in> set (classes enc) then Num (real (index_of v (classes enc)))
                   else Num (- 1)) vals)"
  using assms
proof (induction cs arbitrary: encs df)
  case Nil
  then show ?case by simp
next
  case (Cons c' cs)
  from Cons.prems(5) have ne: "c' @ ''_enc'' \<noteq> c" "\<forall>c'\<in>set cs. c' @ ''_enc'' \<noteq> c" by auto
  from Cons.prems(1) show ?case
  proof (cases rule: encode_cols_Cons_Inr)
    case (1 e codes)
    let ?d = "set_col (c' @ ''_enc'') codes df"
    have gd: "get_col c ?d = Inr vals" using Cons.prems(4) ne(1) by simp
    from 1(3) Cons.prems(3) have ec: "e c = Some enc" by auto
    show ?thesis
    proof (cases "c \<in> set cs")
      case True
      from Cons.IH [OF 1(2) True ec gd ne(2)] show ?thesis .
    next
      case False
      with Cons.prems(2) have cc: "c' = c" by simp
      with 1(3) Cons.prems(3,4) have "apply_res (encode_value enc) vals = Inr codes" by auto
      then have codes: "codes = map (\<lambda>v. if v \<in> set (classes enc)
          then Num (real (index_of v (classes enc))) else Num (- 1)) vals"
        by (simp add: apply_encode_value)
      from False have "c @ ''_enc'' \<notin> (\<lambda>c. c @ ''_enc'') ` set cs" by auto
      from encode_cols_other [OF 1(2) this] cc codes show ?thesis by simp
    qed
  next
    case 2
    from Cons.prems(4) have "has_col c df" by (auto simp: has_col_get_col)
    with 2(1) have "c' \<noteq> c" by auto
    with Cons.prems(2) have in_cs: "c \<in> set cs" by simp
    have gd: "get_col c (set_scalar (c' @ ''_enc'') (Num 0) df) = Inr vals"
      using Cons.prems(4) ne(1) by simp
    from Cons.IH [OF 2(2) in_cs Cons.prems(3) gd ne(2)] show ?thesis .
  qed
qed

text \<open>
  Claim C4. Let the registry hold an encoder for a categorical field. Building
  features never replaces it, so the same value gets the same code every time.
  Whenever the feature builder returns, the code column of the field holds, for every
  row, the code of the value of the field (after missing values have become 0): its
  position among the classes of the encoder when the value is in the fitted
  vocabulary, and the sentinel \<open>-1\<close> otherwise. The lambda of the loop never raises,
  and with an encoder for every field the whole encoding loop raises on no frame.
\<close>

theorem encode_value_stable:
  assumes "encs c = Some enc" and "c \<in> set categorical"
  shows "snd (criar_features env encs df) c = Some enc \<and>
    (\<forall>X y encs' vals. criar_features env encs df = (Inr (X, y), encs') \<longrightarrow>
       get_col c df = Inr vals \<longrightarrow>
       get_col (c @ ''_enc'') X =
         Inr (map (\<lambda>v. if v \<in> set (classes enc) then Num (real (index_of v (classes enc)))
                        else Num (- 1))
               (map (\<lambda>x. if x = NaN then Num 0 else x) vals))) \<and>
    (\<forall>v\<in>set (classes enc).
       index_of v (classes enc) < length (classes enc) \<and>
       classes enc ! index_of v (classes enc) = v) \<and>
    (\<forall>v. encode_value enc v =
       Inr (if v \<in> set (classes enc) then Num (real (index_of v (classes enc)))
            else Num (- 1))) \<and>
    ((\<forall>c'\<in>set categorical. encs c' \<noteq> None) \<longrightarrow>
       (\<forall>d. \<exists>d'. encode_cols categorical encs d = (Inr d', encs)))"
proof (intro conjI allI impI ballI)
  show "snd (criar_features env encs df) c = Some enc"
    using assms(1) by (rule criar_features_frozen)
next
  fix X y encs' vals
  assume cf: "criar_features env encs df = (Inr (X, y), encs')"
    and col: "get_col c df = Inr vals"
  from cf obtain df0 df1 df2 where
    s: "calendar_features env df = Inr df0" "history_features df0 = Inr df1"
      "encode_cols categorical encs (fillna (Num 0) df1) = (Inr df2, encs')"
      "select features df2 = Inr X"
    by (rule criar_features_Inr)
  have "get_col c df1 = get_col c df0"
    using assms(2) by (intro history_features_other [OF s(2)]) (auto simp: categorical_def)
  also have "\<dots> = get_col c df"
    using assms(2) by (intro calendar_features_other [OF s(1)]) (auto simp: categorical_def)
  finally have c1: "get_col c (fillna (Num 0) df1)
      = Inr (map (\<lambda>x. if x = NaN then Num 0 else x) vals)"
    by (simp add: get_col_fillna col)
  have ne: "\<forall>c'\<in>set categorical. c' @ ''_enc'' \<noteq> c"
    using assms(2) by (auto simp: categorical_def)
  have f: "c @ ''_enc'' \<in> set features" using assms(2) by (simp add: features_def)
  from encode_cols_code [OF s(3) assms(2,1) c1 ne] select_Inr(3) [OF s(4) f]
  show "get_col (c @ ''_enc'') X =
         Inr (map (\<lambda>v. if v \<in> set (classes enc) then Num (real (index_of v (classes enc)))
                        else Num (- 1))
               (map (\<lambda>x. if x = NaN then Num 0 else x) vals))"
    by simp
next
  fix v assume "v \<in> set (classes enc)"
  then show "index_of v (classes enc) < length (classes enc)"
    and "classes enc ! index_of v (classes enc) = v"
    by (simp_all add: index_of_nth)
next
  fix v show "encode_value enc v =
       Inr (if v \<in> set (classes enc) then Num (real (index_of v (classes enc)))
            else Num (- 1))"
    by (rule encode_value_total)
next
  fix d assume "\<forall>c'\<in>set categorical. encs c' \<noteq> None"
  from encode_cols_present [OF this, of d]
  show "\<exists>d'. encode_cols categorical encs d = (Inr d', encs)" by blast
qed

lemma example_criar_features_unseen:
  "\<exists>X y encs'. criar_features example_env [''uf'' \<mapsto> \<lparr>classes = [Str ''PE'']\<rparr>] example_daily
     = (Inr (X, y), encs')"
  by (simp add: feat_eval frame_eval example_daily_def example_env_def str_eval)

theorem encode_value_stable_witness:
  "get_col ''uf'' example_daily = Inr [Str ''PE'', Str ''RJ''] \<and>
   (\<exists>X y encs'. criar_features example_env [''uf'' \<mapsto> \<lparr>classes = [Str ''PE'']\<rparr>] example_daily
       = (Inr (X, y), encs') \<and>
      encs' ''uf'' = Some \<lparr>classes = [Str ''PE'']\<rparr> \<and>
      get_col ''uf_enc'' X = Inr [Num 0, Num (- 1)]) \<and>
   (\<exists>d'. encode_cols categorical example_encoders example_daily = (Inr d', example_encoders))"
proof -
  let ?encs = "[''uf'' \<mapsto> \<lparr>classes = [Str ''PE'']\<rparr>]"
  have c: "''uf'' \<in> set categorical" by (simp add: categorical_def)
  have e: "?encs ''uf'' = Some \<lparr>classes = [Str ''PE'']\<rparr>" by simp
  have e': "example_encoders ''uf'' = Some \<lparr>classes = [Str ''PE'', Str ''RJ'']\<rparr>"
    by (simp add: example_encoders_def)
  have all: "\<forall>c'\<in>set categorical. example_encoders c' \<noteq> None"
    by (simp add: categorical_def example_encoders_def)
  have col: "get_col ''uf'' example_daily = Inr [Str ''PE'', Str ''RJ'']"
    by (simp add: example_daily_def get_col_def)
  note t = encode_value_stable [of ?encs "''uf''" "\<lparr>classes = [Str ''PE'']\<rparr>"
      example_env example_daily, OF e c]
  note t' = encode_value_stable [of example_encoders "''uf''"
      "\<lparr>classes = [Str ''PE'', Str ''RJ'']\<rparr>" example_env example_daily, OF e' c]
  from example_criar_features_unseen obtain X y encs' where
    cf: "criar_features example_env ?encs example_daily = (Inr (X, y), encs')" by blast
  from t [THEN conjunct1] cf
  have fr: "encs' ''uf'' = Some \<lparr>classes = [Str ''PE'']\<rparr>" by simp
  from t [THEN conjunct2, THEN conjunct1, rule_format, OF cf col]
  have code: "get_col ''uf_enc'' X = Inr [Num 0, Num (- 1)]" by simp
  from t' [THEN conjunct2, THEN conjunct2, THEN conjunct2, THEN conjunct2, THEN mp, OF all]
  have loop: "\<exists>d'. encode_cols categorical example_encoders example_daily
      = (Inr d', example_encoders)"
    by (rule spec)
  from cf fr code have "\<exists>X y encs'. criar_features example_env ?encs example_daily
       = (Inr (X, y), encs') \<and>
      encs' ''uf'' = Some \<lparr>classes = [Str ''PE'']\<rparr> \<and>
      get_col ''uf_enc'' X = Inr [Num 0, Num (- 1)]"
    by (intro exI conjI)
  with col loop show ?thesis by (intro conjI)
qed

section \<open>The example predictor at work\<close>

lemma example_predictor_state:
  "treinado example_predictor"
  "set (feature_names example_predictor) \<subseteq> set features"
  "\<forall>c\<in>set categorical. encoders example_predictor c \<noteq> None"
  using treinar_trained_state [OF example_treinar(1)]
  by (simp_all add: example_predictor_def)

lemma example_input_ok:
  "get_col ''data_inversa'' example_input = Inr [Str ''03/01/2023'']"
  "\<forall>c\<in>set [Str ''03/01/2023'']. to_dt example_env c \<noteq> NaN"
  "get_col ''condicao_metereologica'' example_input = Inr [Str ''Bom'']"
  "list_all is_str [Str ''Bom'']"
  "has_col ''hora_media'' example_input"
  "\<forall>a. get_col ''acidentes'' example_input = Inr a \<longrightarrow> list_all (\<lambda>c. is_num c \<or> c = NaN) a"
  "\<not> has_col ''acidentes'' example_input"
  "has_col ''uf'' example_input"
  "nrows example_input = 1"
  by (simp_all add: example_input_def get_col_def has_col_def columns_def to_dt_def
      example_env_def is_str_def)

lemma example_prever:
  "prever example_env example_predictor example_input = (Inr [2], example_predictor)"
proof -
  have ne: "[Str ''03/01/2023''] \<noteq> []" by simp
  from prever_matrix_ok [OF example_predictor_state example_input_ok(1,2) ne example_input_ok(3-6)]
  obtain X where X: "prever_matrix example_env example_predictor example_input
      = (Inr X, example_predictor)" "nrows X = 1"
    by (auto simp: example_input_ok(9))
  have "np_round (5 / 2) = 2" by (simp add: np_round_def Let_def)
  then have "map astype_int64 (round_clip (replicate (nrows X) (5 / 2))) = [2]"
    by (simp add: X(2) round_clip_def astype_int64_def)
  then show ?thesis
    by (simp add: prever_def X(1) example_treinar(5))
qed

lemma example_prever_no_hora:
  "prever_matrix example_env example_predictor example_input_no_hora
     = (Inl (KeyError ''hora_media''), example_predictor)"
proof (rule prod_eqI)
  show "fst (prever_matrix example_env example_predictor example_input_no_hora)
      = fst (Inl (KeyError ''hora_media''), example_predictor)"
    by (simp add: prever_matrix_def example_treinar example_input_no_hora_def
        example_encoders_def feat_eval frame_eval example_env_def str_eval to_dt_def
        clima_cell_def simplificar_clima_def)
next
  show "snd (prever_matrix example_env example_predictor example_input_no_hora)
      = snd (Inl (KeyError ''hora_media''), example_predictor)"
    by (simp add: prever_matrix_registry [OF example_predictor_state(3)])
qed


lemma example_input_no_hora_ok:
  "get_col ''data_inversa'' example_input_no_hora = Inr [Str ''03/01/2023'']"
  "get_col ''condicao_metereologica'' example_input_no_hora = Inr [Str ''Bom'']"
  "\<not> has_col ''hora_media'' example_input_no_hora"
  "\<forall>a. get_col ''acidentes'' example_input_no_hora = Inr a \<longrightarrow>
     list_all (\<lambda>c. is_num c \<or> c = NaN) a"
  by (simp_all add: example_input_no_hora_def get_col_def has_col_def columns_def)

lemma example_regressor_contract:
  "\<forall>X raw. modelo example_predictor X = Inr raw \<longrightarrow>
     length raw = nrows X \<and> (\<forall>r\<in>set raw. np_round r < 2 ^ 63)"
proof -
  have "np_round (5 / 2) = 2" by (simp add: np_round_def Let_def)
  then show ?thesis by (auto simp: example_treinar(5))
qed

lemma example_input_no_uf_ok:
  "get_col ''data_inversa'' example_input_no_uf = Inr [Str ''03/01/2023'']"
  "get_col ''condicao_metereologica'' example_input_no_uf = Inr [Str ''Bom'']"
  "has_col ''hora_media'' example_input_no_uf"
  "\<forall>a. get_col ''acidentes'' example_input_no_uf = Inr a \<longrightarrow> list_all (\<lambda>c. is_num c \<or> c = NaN) a"
  "\<not> has_col ''acidentes'' example_input_no_uf"
  "\<not> has_col ''uf'' example_input_no_uf"
  "nrows example_input_no_uf = 1"
  by (simp_all add: example_input_no_uf_def get_col_def has_col_def columns_def)

section \<open>The feature matrix of a prediction\<close>

text \<open>
  Claim C1, as stated, fails: \<^verbatim>\<open>hora_media\<close> is one of the frozen feature names, and
  for an input frame without that column \<^verbatim>\<open>prever\<close> raises \<^verbatim>\<open>KeyError\<close> instead of
  synthesizing a column of zeros.
\<close>

theorem prever_matrix_missing_counterexample:
  "treinado example_predictor \<and> feature_names example_predictor = features \<and>
   ''hora_media'' \<in> set features \<and> \<not> has_col ''hora_media'' example_input_no_hora \<and>
   prever_matrix example_env example_predictor example_input_no_hora
     = (Inl (KeyError ''hora_media''), example_predictor) \<and>
   prever example_env example_predictor example_input_no_hora
     = (Inl (KeyError ''hora_media''), example_predictor)"
proof -
  have "''hora_media'' \<in> set features" by (simp add: features_def)
  moreover have "\<not> has_col ''hora_media'' example_input_no_hora"
    by (simp add: example_input_no_hora_def has_col_def columns_def)
  moreover have "prever example_env example_predictor example_input_no_hora
     = (Inl (KeyError ''hora_media''), example_predictor)"
    by (simp add: prever_def example_prever_no_hora)
  ultimately show ?thesis
    using example_treinar(2,3) example_prever_no_hora by simp
qed

text \<open>
  Claim C1, amended. Let the predictor be trained, with feature names among the
  features the builder produces and an encoder for each categorical field (the state
  that \<^verbatim>\<open>treinar\<close> leaves, see \<open>treinar_trained_state\<close>). Let the input frame have
  at least one row, a column \<^verbatim>\<open>data_inversa\<close> with dates that parse, a column
  \<^verbatim>\<open>condicao_metereologica\<close> with texts, and a column \<^verbatim>\<open>acidentes\<close>, if any, that
  is numeric. If the frame has the column \<^verbatim>\<open>hora_media\<close>, then \<^verbatim>\<open>prever\<close> hands the
  regressor a matrix with exactly the frozen feature names as columns, in that order,
  one row per input row, and leaves the predictor unchanged; the lag and rolling
  features are columns of zeros when the input has no column \<^verbatim>\<open>acidentes\<close>, and the
  code of a categorical field is a column of zeros when the input has no column for
  the field. If the frame has no column \<^verbatim>\<open>hora_media\<close>, then \<^verbatim>\<open>prever\<close> raises
  \<^verbatim>\<open>KeyError\<close> for \<^verbatim>\<open>hora_media\<close> and leaves the predictor unchanged.
\<close>

theorem prever_matrix_columns:
  assumes "treinado p"
    and "set (feature_names p) \<subseteq> set features"
    and "\<forall>c\<in>set categorical. encoders p c \<noteq> None"
    and "get_col ''data_inversa'' df = Inr di" and "\<forall>c\<in>set di. to_dt env c \<noteq> NaN"
    and "di \<noteq> []"
    and "get_col ''condicao_metereologica'' df = Inr cm" and "list_all is_str cm"
    and "\<forall>a. get_col ''acidentes'' df = Inr a \<longrightarrow> list_all (\<lambda>c. is_num c \<or> c = NaN) a"
  shows "(has_col ''hora_media'' df \<longrightarrow>
           (\<exists>X. prever_matrix env p df = (Inr X, p) \<and> columns X = feature_names p \<and>
              nrows X = nrows df \<and>
              (\<not> has_col ''acidentes'' df \<longrightarrow>
                 (\<forall>n\<in>set history_names \<inter> set (feature_names p).
                    get_col n X = Inr (replicate (nrows df) (Num 0)))) \<and>
              (\<forall>c\<in>{''uf'', ''municipio'', ''tipo_acidente''}.
                 \<not> has_col c df \<longrightarrow> c @ ''_enc'' \<in> set (feature_names p) \<longrightarrow>
                 get_col (c @ ''_enc'') X = Inr (replicate (nrows df) (Num 0))))) \<and>
         (\<not> has_col ''hora_media'' df \<longrightarrow>
            prever_matrix env p df = (Inl (KeyError ''hora_media''), p) \<and>
            prever env p df = (Inl (KeyError ''hora_media''), p))"
proof (intro conjI impI)
  assume "has_col ''hora_media'' df"
  with assms show "\<exists>X. prever_matrix env p df = (Inr X, p) \<and> columns X = feature_names p \<and>
              nrows X = nrows df \<and>
              (\<not> has_col ''acidentes'' df \<longrightarrow>
                 (\<forall>n\<in>set history_names \<inter> set (feature_names p).
                    get_col n X = Inr (replicate (nrows df) (Num 0)))) \<and>
              (\<forall>c\<in>{''uf'', ''municipio'', ''tipo_acidente''}.
                 \<not> has_col c df \<longrightarrow> c @ ''_enc'' \<in> set (feature_names p) \<longrightarrow>
                 get_col (c @ ''_enc'') X = Inr (replicate (nrows df) (Num 0)))"
    by (intro prever_matrix_ok)
next
  assume "\<not> has_col ''hora_media'' df"
  with assms show m: "prever_matrix env p df = (Inl (KeyError ''hora_media''), p)"
    by (intro prever_matrix_no_hora)
  then show "prever env p df = (Inl (KeyError ''hora_media''), p)"
    by (simp add: prever_def)
qed

theorem prever_matrix_columns_witness:
  "treinado example_predictor \<and> feature_names example_predictor = features \<and>
   has_col ''hora_media'' example_input_no_uf \<and>
   \<not> has_col ''acidentes'' example_input_no_uf \<and> \<not> has_col ''uf'' example_input_no_uf \<and>
   (\<exists>X. prever_matrix example_env example_predictor example_input_no_uf
          = (Inr X, example_predictor) \<and>
        columns X = features \<and> nrows X = 1 \<and>
        get_col ''lag_1'' X = Inr [Num 0] \<and> get_col ''media_7'' X = Inr [Num 0] \<and>
        get_col ''std_28'' X = Inr [Num 0] \<and> get_col ''uf_enc'' X = Inr [Num 0]) \<and>
   \<not> has_col ''hora_media'' example_input_no_hora \<and>
   prever_matrix example_env example_predictor example_input_no_hora
     = (Inl (KeyError ''hora_media''), example_predictor)"
proof -
  have ne: "[Str ''03/01/2023''] \<noteq> []" by simp
  note t = prever_matrix_columns [OF example_predictor_state example_input_no_uf_ok(1)
      example_input_ok(2) ne example_input_no_uf_ok(2) example_input_ok(4)
      example_input_no_uf_ok(4), THEN conjunct1, rule_format, OF example_input_no_uf_ok(3)]
  note k = prever_matrix_columns [OF example_predictor_state example_input_no_hora_ok(1)
      example_input_ok(2) ne example_input_no_hora_ok(2) example_input_ok(4)
      example_input_no_hora_ok(4), THEN conjunct2, rule_format, OF example_input_no_hora_ok(3),
      THEN conjunct1]
  from t obtain X where X1: "prever_matrix example_env example_predictor example_input_no_uf
      = (Inr X, example_predictor)"
    and X2: "columns X = feature_names example_predictor"
    and X3: "nrows X = nrows example_input_no_uf"
    and X4: "\<not> has_col ''acidentes'' example_input_no_uf \<longrightarrow>
       (\<forall>n\<in>set history_names \<inter> set (feature_names example_predictor).
          get_col n X = Inr (replicate (nrows example_input_no_uf) (Num 0)))"
    and X5: "\<forall>c\<in>{''uf'', ''municipio'', ''tipo_acidente''}.
       \<not> has_col c example_input_no_uf \<longrightarrow> c @ ''_enc'' \<in> set (feature_names example_predictor) \<longrightarrow>
       get_col (c @ ''_enc'') X = Inr (replicate (nrows example_input_no_uf) (Num 0))"
    by (elim exE conjE)
  have m: "''lag_1'' \<in> set history_names \<inter> set (feature_names example_predictor)"
    "''media_7'' \<in> set history_names \<inter> set (feature_names example_predictor)"
    "''std_28'' \<in> set history_names \<inter> set (feature_names example_predictor)"
    by (simp_all add: example_treinar(3) history_names_def features_def)
  from X4 example_input_no_uf_ok(5)
  have z: "\<forall>n\<in>set history_names \<inter> set (feature_names example_predictor).
          get_col n X = Inr (replicate (nrows example_input_no_uf) (Num 0))"
    by (rule mp)
  have h: "get_col ''lag_1'' X = Inr [Num 0]" "get_col ''media_7'' X = Inr [Num 0]"
    "get_col ''std_28'' X = Inr [Num 0]"
    using z [rule_format, OF m(1)] z [rule_format, OF m(2)] z [rule_format, OF m(3)]
    by (simp_all add: example_input_no_uf_ok(7))
  have "''uf'' \<in> {''uf'', ''municipio'', ''tipo_acidente''}" by simp
  moreover have "''uf'' @ ''_enc'' \<in> set (feature_names example_predictor)"
    by (simp add: example_treinar(3) features_def categorical_def)
  ultimately have "get_col (''uf'' @ ''_enc'') X = Inr (replicate (nrows example_input_no_uf) (Num 0))"
    using X5 example_input_no_uf_ok(6) by blast
  then have u: "get_col ''uf_enc'' X = Inr [Num 0]"
    by (simp add: example_input_no_uf_ok(7))
  have c: "columns X = features" "nrows X = 1"
    using X2 X3 by (simp_all add: example_treinar(3) example_input_no_uf_ok(7))
  from X1 c h u have "\<exists>X. prever_matrix example_env example_predictor example_input_no_uf
          = (Inr X, example_predictor) \<and>
        columns X = features \<and> nrows X = 1 \<and>
        get_col ''lag_1'' X = Inr [Num 0] \<and> get_col ''media_7'' X = Inr [Num 0] \<and>
        get_col ''std_28'' X = Inr [Num 0] \<and> get_col ''uf_enc'' X = Inr [Num 0]"
    by blast
  then show ?thesis
    by (intro conjI example_treinar(2,3) example_input_no_uf_ok(3,5,6)
        example_input_no_hora_ok(3) k)
qed

section \<open>Further examples\<close>

text \<open>The example predictor answers 2 for the example input: the raw output 5/2 is a tie.\<close>

theorem prever_nonneg_witness:
  "prever example_env example_predictor example_input = (Inr [2], example_predictor) \<and>
   nrows example_input = 1 \<and>
   (\<exists>X raw. prever_matrix example_env example_predictor example_input
        = (Inr X, example_predictor) \<and>
      modelo example_predictor X = Inr raw \<and> nrows X = nrows example_input \<and>
      length raw = nrows example_input \<and> raw ! 0 = 5 / 2)"
proof -
  from prever_nonneg [OF example_prever example_regressor_contract] obtain X raw where
    x: "prever_matrix example_env example_predictor example_input = (Inr X, example_predictor)"
      "modelo example_predictor X = Inr raw" "nrows X = nrows example_input"
      "length raw = nrows example_input"
    by blast
  from x(2,3) have "raw = [5 / 2]" by (simp add: example_treinar(5) example_input_ok(9))
  with x example_prever example_input_ok(9) show ?thesis by auto
qed

text \<open>Loading the artifact without encoders.\<close>

theorem load_model_defaults_witness:
  "example_files ''modelo_acidentes.pkl'' = Some (Pickle example_partial_blob) \<and>
   b_encoders example_partial_blob = None \<and>
   (\<exists>p. load_model example_files ''modelo_acidentes.pkl'' = Inr (Some p) \<and> treinado p \<and>
      encoders p = Map.empty \<and> feature_names p = features \<and> historical_df p = None)"
proof -
  have b: "example_files ''modelo_acidentes.pkl'' = Some (Pickle example_partial_blob)"
    by (simp add: example_files_def)
  have e: "b_encoders example_partial_blob = None"
    by (simp add: example_partial_blob_def empty_blob_def)
  from load_model_defaults [of example_files "''modelo_acidentes.pkl''" example_partial_blob] b
  have "\<exists>p. load_model example_files ''modelo_acidentes.pkl'' = Inr (Some p) \<and> treinado p \<and>
      encoders p = Map.empty \<and> feature_names p = features \<and> historical_df p = None"
    by (auto simp: example_partial_blob_def empty_blob_def dict_get_def)
  with b e show ?thesis by blast
qed

text \<open>
  Claim C7, as stated, fails: the stored artifact has a regressor and the feature
  names but no encoders; the loader returns a predictor marked as trained, with an
  empty registry, and \<^verbatim>\<open>prever\<close> on it returns a prediction.
\<close>

theorem load_model_partial_counterexample:
  "example_files ''modelo_acidentes.pkl'' = Some (Pickle example_partial_blob) \<and>
   b_encoders example_partial_blob = None \<and>
   map_sum id (map_option treinado) (load_model example_files ''modelo_acidentes.pkl'')
     = Inr (Some True) \<and>
   map_sum id (map_option encoders) (load_model example_files ''modelo_acidentes.pkl'')
     = Inr (Some Map.empty) \<and>
   map_sum id (map_option (\<lambda>p. fst (prever example_env p example_input)))
     (load_model example_files ''modelo_acidentes.pkl'') = Inr (Some (Inr [2]))"
proof -
  have np: "np_round (5 / 2) = 2" by (simp add: np_round_def Let_def)
  show ?thesis
    by (simp add: load_model_def example_files_def example_partial_blob_def empty_blob_def
        new_predictor_def dict_get_def prever_def prever_matrix_def example_input_def
        feat_eval frame_eval example_env_def str_eval to_dt_def clima_cell_def
        simplificar_clima_def round_clip_def astype_int64_def np)
qed

end
